theory Spec2Isabelle
  imports Complex_Main
begin

section \<open>Data model of the viewer's unit simulation (main.c)\<close>

text \<open>
  The C program computes with \<open>float\<close>. The model idealises \<open>float\<close> as \<^typ>\<open>real\<close>:
  rounding, infinities and NaN are not represented, and the one place where the program
  divides by a value that can be zero is modelled with an explicit error value.

  C arrays and pointers are unchecked. An array or pointer is modelled as a total function
  of the index (\<open>a[i]\<close> is \<open>a i\<close>, \<open>a[i] = v\<close> is \<open>a(i := v)\<close>), next to the count
  the program keeps for it. Loop counters and stored slot indices never go negative in
  the program and are natural numbers; group numbers are tested against \<open>1\<close> and
  \<open>9\<close> and stay \<^typ>\<open>int\<close>.
\<close>

record Vector2 =
  v2x :: real
  v2y :: real

record Vector3 =
  v3x :: real
  v3y :: real
  v3z :: real

record Ray =
  ray_position :: Vector3
  ray_direction :: Vector3

record RayCollision =
  hit :: bool
  distance :: real
  point :: Vector3

record BoundingBox =
  bmin :: Vector3
  bmax :: Vector3

record Mesh =
  triangleCount :: nat
  vertices :: "nat \<Rightarrow> real"
  indices :: "(nat \<Rightarrow> nat) option"

record 'm Model =
  transform :: 'm
  meshCount :: nat
  meshes :: "nat \<Rightarrow> Mesh"

type_synonym Color = "nat \<times> nat \<times> nat \<times> nat"

record Unit =
  position :: Vector3
  velocity :: Vector3
  targetPosition :: Vector3
  commandTarget :: Vector3
  hasCommand :: bool
  rotation :: real
  moveTimer :: real
  unit_size :: real
  color :: Color
  active :: bool
  selected :: bool
  groupId :: int

record ControlGroup =
  unitIndices :: "nat \<Rightarrow> nat"
  groupUnitCount :: nat
  groupActive :: bool

text \<open>
  The globals \<open>units\<close>, \<open>unitCount\<close> and \<open>controlGroups\<close>, together with the state of the
  pseudo-random generator behind \<open>GetRandomValue\<close>.
\<close>

record 'r state =
  units :: "nat \<Rightarrow> Unit"
  unitCount :: nat
  controlGroups :: "nat \<Rightarrow> ControlGroup"
  rng :: 'r

text \<open>
  The functions of raylib and libm that main.c calls. Their code is not part of the
  program; every definition below takes them as a parameter. \<open>'r\<close> is the generator
  state, \<open>'c\<close> the type \<open>Camera3D\<close>, \<open>'m\<close> the type \<open>Matrix\<close>.
\<close>

record ('r, 'c, 'm) raylib =
  GetRandomValue :: "int \<Rightarrow> int \<Rightarrow> 'r \<Rightarrow> int \<times> 'r"
  cosf :: "real \<Rightarrow> real"
  sinf :: "real \<Rightarrow> real"
  atan2f :: "real \<Rightarrow> real \<Rightarrow> real"
  GetMeshBoundingBox :: "Mesh \<Rightarrow> BoundingBox"
  GetRayCollisionBox :: "Ray \<Rightarrow> BoundingBox \<Rightarrow> RayCollision"
  Vector3Transform :: "Vector3 \<Rightarrow> 'm \<Rightarrow> Vector3"
  GetRayCollisionTriangle :: "Ray \<Rightarrow> Vector3 \<Rightarrow> Vector3 \<Rightarrow> Vector3 \<Rightarrow> RayCollision"
  GetMouseRay :: "Vector2 \<Rightarrow> 'c \<Rightarrow> Ray"
  GetWorldToScreen :: "Vector3 \<Rightarrow> 'c \<Rightarrow> Vector2"

subsection \<open>Constants\<close>

definition MAX_UNITS :: nat where "MAX_UNITS = 100"
definition UNIT_SIZE :: real where "UNIT_SIZE = 3 / 10"
definition UNIT_SPEED :: real where "UNIT_SPEED = 2"
definition UNIT_TURN_SPEED :: real where "UNIT_TURN_SPEED = 3"
definition UNIT_AVOIDANCE_DISTANCE :: real where "UNIT_AVOIDANCE_DISTANCE = 3 / 2"
definition UNIT_HEIGHT_OFFSET :: real where "UNIT_HEIGHT_OFFSET = 2 / 10"
definition UNIT_ARRIVAL_DISTANCE :: real where "UNIT_ARRIVAL_DISTANCE = 5 / 10"
definition DEG2RAD :: real where "DEG2RAD = pi / 180"
definition WHITE :: Color where "WHITE = (255, 255, 255, 255)"

subsection \<open>Vector arithmetic (raymath.h)\<close>

definition Vector3Add :: "Vector3 \<Rightarrow> Vector3 \<Rightarrow> Vector3" where
  "Vector3Add a b = \<lparr>v3x = v3x a + v3x b, v3y = v3y a + v3y b, v3z = v3z a + v3z b\<rparr>"

definition Vector3Subtract :: "Vector3 \<Rightarrow> Vector3 \<Rightarrow> Vector3" where
  "Vector3Subtract a b = \<lparr>v3x = v3x a - v3x b, v3y = v3y a - v3y b, v3z = v3z a - v3z b\<rparr>"

definition Vector3Scale :: "Vector3 \<Rightarrow> real \<Rightarrow> Vector3" where
  "Vector3Scale v k = \<lparr>v3x = v3x v * k, v3y = v3y v * k, v3z = v3z v * k\<rparr>"

definition Vector3Length :: "Vector3 \<Rightarrow> real" where
  "Vector3Length v = sqrt (v3x v * v3x v + v3y v * v3y v + v3z v * v3z v)"

definition Vector3Distance :: "Vector3 \<Rightarrow> Vector3 \<Rightarrow> real" where
  "Vector3Distance a b = Vector3Length (Vector3Subtract b a)"

definition Vector3Normalize :: "Vector3 \<Rightarrow> Vector3" where
  "Vector3Normalize v =
     (let len = Vector3Length v
      in if len \<noteq> 0 then Vector3Scale v (1 / len) else v)"

text \<open>The C cast \<open>(int)f\<close> of a float truncates towards zero.\<close>

definition c_trunc :: "real \<Rightarrow> int" where
  "c_trunc r = (if 0 \<le> r then \<lfloor>r\<rfloor> else \<lceil>r\<rceil>)"

section \<open>Spawning units\<close>

text \<open>\<open>InitUnit\<close> writes every field of the slot and draws the heading at random.\<close>

definition InitUnit :: "('r, 'c, 'm) raylib \<Rightarrow> Vector3 \<Rightarrow> 'r \<Rightarrow> Unit \<times> 'r" where
  "InitUnit rl pos g =
     (let (a, g1) = GetRandomValue rl 0 360 g
      in (\<lparr>position = pos,
           velocity = \<lparr>v3x = 0, v3y = 0, v3z = 0\<rparr>,
           targetPosition = pos,
           commandTarget = pos,
           hasCommand = False,
           rotation = real_of_int a * DEG2RAD,
           moveTimer = 0,
           unit_size = UNIT_SIZE,
           color = WHITE,
           active = True,
           selected = False,
           groupId = 0\<rparr>, g1))"

definition SpawnUnit :: "('r, 'c, 'm) raylib \<Rightarrow> Vector3 \<Rightarrow> real \<Rightarrow> 'r state \<Rightarrow> 'r state" where
  "SpawnUnit rl centerPos radius s =
     (if unitCount s \<ge> MAX_UNITS then s
      else
        let (a, g1) = GetRandomValue rl 0 360 (rng s);
            angle = real_of_int a * DEG2RAD;
            (d, g2) = GetRandomValue rl 10 (c_trunc (radius * 10)) g1;
            dist = real_of_int d / 10;
            spawnPos = \<lparr>v3x = v3x centerPos + cosf rl angle * dist,
                        v3y = v3y centerPos + UNIT_HEIGHT_OFFSET,
                        v3z = v3z centerPos + sinf rl angle * dist\<rparr>;
            (u, g3) = InitUnit rl spawnPos g2
        in s\<lparr>units := (units s)(unitCount s := u),
             unitCount := unitCount s + 1,
             rng := g3\<rparr>)"

text \<open>A run of spawn requests, as the main loop issues them (five per key press).\<close>

fun spawn_many :: "('r, 'c, 'm) raylib \<Rightarrow> (Vector3 \<times> real) list \<Rightarrow> 'r state \<Rightarrow> 'r state" where
  "spawn_many rl [] s = s"
| "spawn_many rl ((c, r) # reqs) s = spawn_many rl reqs (SpawnUnit rl c r s)"

section \<open>Spatial queries\<close>

text \<open>
  Each query walks the meshes and, inside a mesh whose bounding box the ray hits, the
  triangles. The source reads a triangle in one of two ways: through the index array,
  or, when \<open>mesh.indices\<close> is \<open>NULL\<close>, as three consecutive vertices.
\<close>

definition vertex_at :: "Mesh \<Rightarrow> nat \<Rightarrow> Vector3" where
  "vertex_at mesh i =
     \<lparr>v3x = vertices mesh (i * 3 + 0),
      v3y = vertices mesh (i * 3 + 1),
      v3z = vertices mesh (i * 3 + 2)\<rparr>"

definition indexed_triangle ::
  "('r, 'c, 'm) raylib \<Rightarrow> 'm \<Rightarrow> Mesh \<Rightarrow> (nat \<Rightarrow> nat) \<Rightarrow> nat \<Rightarrow> Vector3 \<times> Vector3 \<times> Vector3" where
  "indexed_triangle rl tr mesh ind t =
     (let idx0 = ind (t * 3 + 0);
          idx1 = ind (t * 3 + 1);
          idx2 = ind (t * 3 + 2)
      in (Vector3Transform rl (vertex_at mesh idx0) tr,
          Vector3Transform rl (vertex_at mesh idx1) tr,
          Vector3Transform rl (vertex_at mesh idx2) tr))"

definition plain_triangle ::
  "('r, 'c, 'm) raylib \<Rightarrow> 'm \<Rightarrow> Mesh \<Rightarrow> nat \<Rightarrow> Vector3 \<times> Vector3 \<times> Vector3" where
  "plain_triangle rl tr mesh t =
     (Vector3Transform rl (vertex_at mesh (t * 3 + 0)) tr,
      Vector3Transform rl (vertex_at mesh (t * 3 + 1)) tr,
      Vector3Transform rl (vertex_at mesh (t * 3 + 2)) tr)"

definition triCollision ::
  "('r, 'c, 'm) raylib \<Rightarrow> Ray \<Rightarrow> Vector3 \<times> Vector3 \<times> Vector3 \<Rightarrow> RayCollision" where
  "triCollision rl ray tri = (case tri of (v0, v1, v2) \<Rightarrow> GetRayCollisionTriangle rl ray v0 v1 v2)"

subsection \<open>CheckCollisionWithModel\<close>

text \<open>
  The function returns \<open>true\<close> from inside its loops at the first triangle hit closer
  than \<open>maxDistance\<close>, and \<open>false\<close> after them: it computes whether such a triangle
  exists, scanning in order.
\<close>

definition blocks :: "('r, 'c, 'm) raylib \<Rightarrow> Ray \<Rightarrow> real \<Rightarrow> Vector3 \<times> Vector3 \<times> Vector3 \<Rightarrow> bool" where
  "blocks rl ray maxDistance tri =
     (let c = triCollision rl ray tri in hit c \<and> distance c < maxDistance)"

definition CheckCollisionWithModel ::
  "('r, 'c, 'm) raylib \<Rightarrow> Vector3 \<Rightarrow> Vector3 \<Rightarrow> 'm Model \<Rightarrow> real \<Rightarrow> bool" where
  "CheckCollisionWithModel rl origin direction model maxDistance =
     (let ray = \<lparr>ray_position = origin, ray_direction = direction\<rparr>
      in list_ex (\<lambda>i.
           let mesh = meshes model i;
               boxCollision = GetRayCollisionBox rl ray (GetMeshBoundingBox rl mesh)
           in hit boxCollision \<and> distance boxCollision < maxDistance \<and>
              (case indices mesh of
                 Some ind \<Rightarrow>
                   list_ex (\<lambda>t. blocks rl ray maxDistance
                                  (indexed_triangle rl (transform model) mesh ind t))
                     [0..<triangleCount mesh]
               | None \<Rightarrow>
                   list_ex (\<lambda>t. blocks rl ray maxDistance
                                  (plain_triangle rl (transform model) mesh t))
                     [0..<triangleCount mesh]))
           [0..<meshCount model])"

subsection \<open>GetGroundHeight\<close>

text \<open>
  The loops carry the pair \<open>(closestDistance, groundY)\<close>; a triangle replaces it when
  the ray hits the triangle strictly closer than the distance held.
\<close>

definition ground_tri_step :: "RayCollision \<Rightarrow> real \<times> real \<Rightarrow> real \<times> real" where
  "ground_tri_step c acc =
     (case acc of (closestDistance, groundY) \<Rightarrow>
        if hit c \<and> distance c < closestDistance then (distance c, v3y (point c))
        else (closestDistance, groundY))"

definition ground_mesh_step ::
  "('r, 'c, 'm) raylib \<Rightarrow> Ray \<Rightarrow> 'm \<Rightarrow> Mesh \<Rightarrow> real \<times> real \<Rightarrow> real \<times> real" where
  "ground_mesh_step rl ray tr mesh acc =
     (let boxCollision = GetRayCollisionBox rl ray (GetMeshBoundingBox rl mesh)
      in if hit boxCollision then
           (case indices mesh of
              Some ind \<Rightarrow>
                fold (\<lambda>t. ground_tri_step (triCollision rl ray (indexed_triangle rl tr mesh ind t)))
                  [0..<triangleCount mesh] acc
            | None \<Rightarrow>
                fold (\<lambda>t. ground_tri_step (triCollision rl ray (plain_triangle rl tr mesh t)))
                  [0..<triangleCount mesh] acc)
         else acc)"

definition down_ray :: "Vector3 \<Rightarrow> Ray" where
  "down_ray pos =
     \<lparr>ray_position = \<lparr>v3x = v3x pos, v3y = v3y pos + 10, v3z = v3z pos\<rparr>,
      ray_direction = \<lparr>v3x = 0, v3y = - 1, v3z = 0\<rparr>\<rparr>"

definition GetGroundHeight :: "('r, 'c, 'm) raylib \<Rightarrow> Vector3 \<Rightarrow> 'm Model \<Rightarrow> real" where
  "GetGroundHeight rl pos model =
     (let ray = down_ray pos;
          (closestDistance, groundY) =
             fold (\<lambda>i. ground_mesh_step rl ray (transform model) (meshes model i))
               [0..<meshCount model] (10000, 0)
      in if closestDistance \<ge> 10000 then UNIT_HEIGHT_OFFSET
         else groundY + UNIT_HEIGHT_OFFSET)"

subsection \<open>GetGroundPositionFromMouse\<close>

text \<open>
  The loops carry \<open>(closestDistance, hitPoint, hitFound)\<close>. Inside a mesh whose box is
  hit, the source has the loop over indexed triangles only; there is no \<open>else\<close> branch.
\<close>

definition mouse_tri_step ::
  "RayCollision \<Rightarrow> real \<times> Vector3 \<times> bool \<Rightarrow> real \<times> Vector3 \<times> bool" where
  "mouse_tri_step c acc =
     (case acc of (closestDistance, hitPoint, hitFound) \<Rightarrow>
        if hit c \<and> distance c < closestDistance then (distance c, point c, True)
        else (closestDistance, hitPoint, hitFound))"

definition mouse_mesh_step ::
  "('r, 'c, 'm) raylib \<Rightarrow> Ray \<Rightarrow> 'm \<Rightarrow> Mesh \<Rightarrow> real \<times> Vector3 \<times> bool \<Rightarrow> real \<times> Vector3 \<times> bool" where
  "mouse_mesh_step rl ray tr mesh acc =
     (let boxCollision = GetRayCollisionBox rl ray (GetMeshBoundingBox rl mesh)
      in if hit boxCollision then
           (case indices mesh of
              Some ind \<Rightarrow>
                fold (\<lambda>t. mouse_tri_step (triCollision rl ray (indexed_triangle rl tr mesh ind t)))
                  [0..<triangleCount mesh] acc
            | None \<Rightarrow> acc)
         else acc)"

text \<open>
  The intersection with the plane \<open>y = 0\<close> computes \<open>-ray.position.y / ray.direction.y\<close>
  with no test of the divisor. Over \<^typ>\<open>real\<close> a quotient by zero has no meaning that
  matches the program (IEEE 754 yields an infinity or NaN, whose sign depends on signed
  zeros), so the model reports the division by zero as an error value.
\<close>

datatype error = DivisionByZero

definition ground_plane_intersection :: "Ray \<Rightarrow> error + Vector3" where
  "ground_plane_intersection ray =
     (if v3y (ray_direction ray) = 0 then Inl DivisionByZero
      else
        let t = - v3y (ray_position ray) / v3y (ray_direction ray)
        in if t > 0 then
             Inr \<lparr>v3x = v3x (ray_position ray) + v3x (ray_direction ray) * t,
                  v3y = UNIT_HEIGHT_OFFSET,
                  v3z = v3z (ray_position ray) + v3z (ray_direction ray) * t\<rparr>
           else Inr \<lparr>v3x = 0, v3y = UNIT_HEIGHT_OFFSET, v3z = 0\<rparr>)"

definition GetGroundPositionFromMouse ::
  "('r, 'c, 'm) raylib \<Rightarrow> Vector2 \<Rightarrow> 'c \<Rightarrow> 'm Model \<Rightarrow> error + Vector3" where
  "GetGroundPositionFromMouse rl mousePos camera model =
     (let ray = GetMouseRay rl mousePos camera;
          (closestDistance, hitPoint, hitFound) =
             fold (\<lambda>i. mouse_mesh_step rl ray (transform model) (meshes model i))
               [0..<meshCount model] (10000, \<lparr>v3x = 0, v3y = 0, v3z = 0\<rparr>, False)
      in if hitFound then Inr (hitPoint\<lparr>v3y := v3y hitPoint + UNIT_HEIGHT_OFFSET\<rparr>)
         else ground_plane_intersection ray)"

section \<open>Selection and control groups\<close>

definition deselect_step :: "nat \<Rightarrow> 'r state \<Rightarrow> 'r state" where
  "deselect_step i s = s\<lparr>units := (units s)(i := (units s i)\<lparr>selected := False\<rparr>)\<rparr>"

definition deselect_all :: "'r state \<Rightarrow> 'r state" where
  "deselect_all s = fold deselect_step [0..<unitCount s] s"

definition box_step ::
  "('r, 'c, 'm) raylib \<Rightarrow> 'c \<Rightarrow> real \<Rightarrow> real \<Rightarrow> real \<Rightarrow> real \<Rightarrow> nat \<Rightarrow> 'r state \<Rightarrow> 'r state" where
  "box_step rl camera minX maxX minY maxY i s =
     (if \<not> active (units s i) then s
      else
        let screenPos = GetWorldToScreen rl (position (units s i)) camera
        in if v2x screenPos \<ge> minX \<and> v2x screenPos \<le> maxX \<and>
              v2y screenPos \<ge> minY \<and> v2y screenPos \<le> maxY
           then s\<lparr>units := (units s)(i := (units s i)\<lparr>selected := True\<rparr>)\<rparr>
           else s)"

definition SelectUnitsInBox ::
  "('r, 'c, 'm) raylib \<Rightarrow> Vector2 \<Rightarrow> Vector2 \<Rightarrow> 'c \<Rightarrow> 'r state \<Rightarrow> 'r state" where
  "SelectUnitsInBox rl start endp camera s =
     (let s1 = deselect_all s;
          minX = min (v2x start) (v2x endp);
          maxX = max (v2x start) (v2x endp);
          minY = min (v2y start) (v2y endp);
          maxY = max (v2y start) (v2y endp)
      in fold (box_step rl camera minX maxX minY maxY) [0..<unitCount s1] s1)"

text \<open>
  The membership list of a group: the first \<open>unitCount\<close> entries of its index array.
\<close>

definition members :: "ControlGroup \<Rightarrow> nat list" where
  "members g = map (unitIndices g) [0..<groupUnitCount g]"

text \<open>
  Removing slot \<open>i\<close> from a group: the scan over \<open>j\<close> stops at the first entry equal to
  \<open>i\<close>, moves the entries behind it one place down and decrements the count.
\<close>

definition shift_down :: "nat \<Rightarrow> ControlGroup \<Rightarrow> ControlGroup" where
  "shift_down j g =
     g\<lparr>unitIndices := fold (\<lambda>k a. a(k := a (k + 1))) [j..<groupUnitCount g - 1] (unitIndices g)\<rparr>"

function remove_from_group :: "nat \<Rightarrow> nat \<Rightarrow> ControlGroup \<Rightarrow> ControlGroup" where
  "remove_from_group i j g =
     (if j < groupUnitCount g then
        if unitIndices g j = i
        then (shift_down j g)\<lparr>groupUnitCount := groupUnitCount g - 1\<rparr>
        else remove_from_group i (j + 1) g
      else g)"
  by pat_completeness auto
termination
  by (relation "measure (\<lambda>(i, j, g). groupUnitCount g - j)") auto

declare remove_from_group.simps [simp del]

definition assign_step :: "int \<Rightarrow> nat \<Rightarrow> 'r state \<Rightarrow> 'r state" where
  "assign_step groupNum i s =
     (if active (units s i) \<and> selected (units s i) then
        let s1 = (if groupId (units s i) > 0 then
                    let old = nat (groupId (units s i))
                    in s\<lparr>controlGroups :=
                           (controlGroups s)(old := remove_from_group i 0 (controlGroups s old))\<rparr>
                  else s)
        in s1\<lparr>units := (units s1)(i := (units s1 i)\<lparr>groupId := groupNum\<rparr>)\<rparr>
      else s)"

definition build_step :: "'r state \<Rightarrow> nat \<Rightarrow> ControlGroup \<Rightarrow> ControlGroup" where
  "build_step s i g =
     (if active (units s i) \<and> selected (units s i)
      then g\<lparr>unitIndices := (unitIndices g)(groupUnitCount g := i),
             groupUnitCount := groupUnitCount g + 1\<rparr>
      else g)"

definition AssignControlGroup :: "int \<Rightarrow> 'r state \<Rightarrow> 'r state" where
  "AssignControlGroup groupNum s =
     (if groupNum < 1 \<or> groupNum > 9 then s
      else
        let s1 = fold (assign_step groupNum) [0..<unitCount s] s;
            g0 = (controlGroups s1 (nat groupNum))\<lparr>groupUnitCount := 0, groupActive := True\<rparr>;
            g1 = fold (build_step s1) [0..<unitCount s1] g0
        in s1\<lparr>controlGroups := (controlGroups s1)(nat groupNum := g1)\<rparr>)"

text \<open>
  \<open>SelectControlGroup\<close> returns the centre of the selected units; the model returns the
  new state with it. The loop carries the state, the sum of positions and \<open>validCount\<close>.
\<close>

definition select_step ::
  "ControlGroup \<Rightarrow> nat \<Rightarrow> 'r state \<times> Vector3 \<times> nat \<Rightarrow> 'r state \<times> Vector3 \<times> nat" where
  "select_step g j acc =
     (case acc of (s, center, validCount) \<Rightarrow>
        let unitIdx = unitIndices g j
        in if unitIdx < unitCount s \<and> active (units s unitIdx) then
             (s\<lparr>units := (units s)(unitIdx := (units s unitIdx)\<lparr>selected := True\<rparr>)\<rparr>,
              \<lparr>v3x = v3x center + v3x (position (units s unitIdx)),
               v3y = v3y center + v3y (position (units s unitIdx)),
               v3z = v3z center + v3z (position (units s unitIdx))\<rparr>,
              validCount + 1)
           else (s, center, validCount))"

definition SelectControlGroup :: "int \<Rightarrow> 'r state \<Rightarrow> 'r state \<times> Vector3" where
  "SelectControlGroup groupNum s =
     (if groupNum < 1 \<or> groupNum > 9 then (s, \<lparr>v3x = 0, v3y = 0, v3z = 0\<rparr>)
      else
        let g = controlGroups s (nat groupNum)
        in if \<not> groupActive g \<or> groupUnitCount g = 0 then (s, \<lparr>v3x = 0, v3y = 0, v3z = 0\<rparr>)
           else
             let s1 = deselect_all s;
                 (s2, center, validCount) =
                    fold (select_step g) [0..<groupUnitCount g]
                      (s1, \<lparr>v3x = 0, v3y = 0, v3z = 0\<rparr>, 0)
             in if validCount > 0 then
                  (s2, \<lparr>v3x = v3x center / real validCount,
                        v3y = v3y center / real validCount,
                        v3z = v3z center / real validCount\<rparr>)
                else (s2, \<lparr>v3x = 0, v3y = 0, v3z = 0\<rparr>))"

text \<open>
  For stating the properties: the units an assignment applies to, the test of the
  selection rectangle on a world position, and the update of one slot of \<open>units\<close>.
\<close>

definition assigned :: "'r state \<Rightarrow> nat \<Rightarrow> bool" where
  "assigned s i = (i < unitCount s \<and> active (units s i) \<and> selected (units s i))"

definition in_box :: "('r, 'c, 'm) raylib \<Rightarrow> Vector2 \<Rightarrow> Vector2 \<Rightarrow> 'c \<Rightarrow> Vector3 \<Rightarrow> bool" where
  "in_box rl start endp camera p =
     (let screenPos = GetWorldToScreen rl p camera
      in min (v2x start) (v2x endp) \<le> v2x screenPos \<and> v2x screenPos \<le> max (v2x start) (v2x endp) \<and>
         min (v2y start) (v2y endp) \<le> v2y screenPos \<and> v2y screenPos \<le> max (v2y start) (v2y endp))"

definition slot_update :: "(nat \<Rightarrow> Unit \<Rightarrow> Unit) \<Rightarrow> nat \<Rightarrow> 'r state \<Rightarrow> 'r state" where
  "slot_update f i s = s\<lparr>units := (units s)(i := f i (units s i))\<rparr>"

section \<open>The per-tick update of a unit\<close>

text \<open>
  \<open>UpdateUnit\<close> receives a pointer into \<open>units\<close>; the model receives the slot index
  \<open>self\<close>. The two \<open>while\<close> loops that bring the rotation difference into range
  terminate for every real number.
\<close>

function wrap_above :: "real \<Rightarrow> real" where
  "wrap_above d = (if d > pi then wrap_above (d - 2 * pi) else d)"
  by pat_completeness auto
termination
proof (relation "measure (\<lambda>d. nat \<lceil>d / (2 * pi)\<rceil>)")
  show "wf (measure (\<lambda>d. nat \<lceil>d / (2 * pi)\<rceil>))" by simp
next
  fix d :: real
  assume d: "pi < d"
  have eq: "(d - 2 * pi) / (2 * pi) = d / (2 * pi) - 1"
    by (simp add: diff_divide_distrib)
  have "0 < d" using d pi_gt_zero by linarith
  then have "0 < d / (2 * pi)" by (intro divide_pos_pos) simp_all
  then have pos: "0 < \<lceil>d / (2 * pi)\<rceil>" by linarith
  have "\<lceil>(d - 2 * pi) / (2 * pi)\<rceil> = \<lceil>d / (2 * pi)\<rceil> - 1"
    unfolding eq by (rule ceiling_diff_one)
  with pos have "nat \<lceil>(d - 2 * pi) / (2 * pi)\<rceil> < nat \<lceil>d / (2 * pi)\<rceil>"
    by linarith
  then show "(d - 2 * pi, d) \<in> measure (\<lambda>d. nat \<lceil>d / (2 * pi)\<rceil>)"
    unfolding in_measure .
qed

function wrap_below :: "real \<Rightarrow> real" where
  "wrap_below d = (if d < - pi then wrap_below (d + 2 * pi) else d)"
  by pat_completeness auto
termination
proof (relation "measure (\<lambda>d. nat \<lceil>- d / (2 * pi)\<rceil>)")
  show "wf (measure (\<lambda>d. nat \<lceil>- d / (2 * pi)\<rceil>))" by simp
next
  fix d :: real
  assume d: "d < - pi"
  have eq: "- (d + 2 * pi) / (2 * pi) = - d / (2 * pi) - 1"
    by (simp add: diff_divide_distrib add_divide_distrib)
  have "0 < - d" using d pi_gt_zero by linarith
  then have "0 < - d / (2 * pi)" by (intro divide_pos_pos) simp_all
  then have pos: "0 < \<lceil>- d / (2 * pi)\<rceil>" by linarith
  have "\<lceil>- (d + 2 * pi) / (2 * pi)\<rceil> = \<lceil>- d / (2 * pi)\<rceil> - 1"
    unfolding eq by (rule ceiling_diff_one)
  with pos have "nat \<lceil>- (d + 2 * pi) / (2 * pi)\<rceil> < nat \<lceil>- d / (2 * pi)\<rceil>"
    by linarith
  then show "(d + 2 * pi, d) \<in> measure (\<lambda>d. nat \<lceil>- d / (2 * pi)\<rceil>)"
    unfolding in_measure .
qed

declare wrap_above.simps [simp del] wrap_below.simps [simp del]

text \<open>Target resolution: the commanded case with its arrival test, or the wander timer.\<close>

definition resolve_target ::
  "('r, 'c, 'm) raylib \<Rightarrow> real \<Rightarrow> Unit \<Rightarrow> 'r \<Rightarrow> Unit \<times> Vector3 \<times> 'r" where
  "resolve_target rl deltaTime unit g =
     (if hasCommand unit then
        let actualTarget = commandTarget unit;
            distToCommand = Vector3Distance (position unit) (commandTarget unit)
        in if distToCommand < UNIT_ARRIVAL_DISTANCE
           then (unit\<lparr>hasCommand := False, moveTimer := 0\<rparr>, actualTarget, g)
           else (unit, actualTarget, g)
      else
        let u1 = unit\<lparr>moveTimer := moveTimer unit - deltaTime\<rparr>
        in if moveTimer u1 \<le> 0 then
             let (a, g1) = GetRandomValue rl 0 360 g;
                 angle = real_of_int a * DEG2RAD;
                 (d, g2) = GetRandomValue rl 2 8 g1;
                 dist = real_of_int d;
                 u2 = u1\<lparr>targetPosition :=
                          \<lparr>v3x = v3x (position u1) + cosf rl angle * dist,
                           v3y = v3y (position u1),
                           v3z = v3z (position u1) + sinf rl angle * dist\<rparr>\<rparr>;
                 (m, g3) = GetRandomValue rl 20 50 g2;
                 u3 = u2\<lparr>moveTimer := real_of_int m / 10\<rparr>
             in (u3, targetPosition u3, g3)
           else (u1, targetPosition u1, g))"

definition near_other_unit :: "'r state \<Rightarrow> nat \<Rightarrow> Vector3 \<Rightarrow> bool" where
  "near_other_unit s self pos =
     list_ex (\<lambda>i. i \<noteq> self \<and> active (units s i) \<and>
                  Vector3Distance pos (position (units s i)) < UNIT_SIZE * 3)
       [0..<unitCount s]"

definition willCollide ::
  "('r, 'c, 'm) raylib \<Rightarrow> 'm Model \<Rightarrow> 'r state \<Rightarrow> nat \<Rightarrow> Vector3 \<Rightarrow> Vector3 \<Rightarrow> bool" where
  "willCollide rl model s self pos direction =
     (CheckCollisionWithModel rl pos direction model UNIT_AVOIDANCE_DISTANCE \<or>
      near_other_unit s self pos)"

text \<open>The deflected direction, and what the avoidance branch does with it.\<close>

definition deflected :: "('r, 'c, 'm) raylib \<Rightarrow> Vector3 \<Rightarrow> 'r \<Rightarrow> Vector3 \<times> 'r" where
  "deflected rl direction g =
     (let (a, g1) = GetRandomValue rl (- 90) 90 g;
          avoidanceAngle = real_of_int a * DEG2RAD;
          currentAngle = atan2f rl (v3z direction) (v3x direction);
          newAngle = currentAngle + avoidanceAngle
      in (\<lparr>v3x = cosf rl newAngle, v3y = 0, v3z = sinf rl newAngle\<rparr>, g1))"

definition avoid :: "('r, 'c, 'm) raylib \<Rightarrow> real \<Rightarrow> Vector3 \<Rightarrow> Unit \<Rightarrow> 'r \<Rightarrow> Unit \<times> 'r" where
  "avoid rl deltaTime direction unit g =
     (let (direction', g1) = deflected rl direction g
      in if hasCommand unit then
           let movement = Vector3Scale direction' (UNIT_SPEED * deltaTime * (1 / 2))
           in (unit\<lparr>position := Vector3Add (position unit) movement\<rparr>, g1)
         else
           (unit\<lparr>targetPosition := Vector3Add (position unit) (Vector3Scale direction' 3),
                 moveTimer := 1\<rparr>, g1))"

definition advance :: "('r, 'c, 'm) raylib \<Rightarrow> real \<Rightarrow> Vector3 \<Rightarrow> Unit \<Rightarrow> Unit" where
  "advance rl deltaTime direction unit =
     (let movement = Vector3Scale direction (UNIT_SPEED * deltaTime);
          u1 = unit\<lparr>position := Vector3Add (position unit) movement\<rparr>;
          targetRotation = atan2f rl (v3z direction) (v3x direction);
          rotationDiff = wrap_below (wrap_above (targetRotation - rotation u1))
      in u1\<lparr>rotation := rotation u1 + rotationDiff * UNIT_TURN_SPEED * deltaTime\<rparr>)"

text \<open>Everything \<open>UpdateUnit\<close> does to an active unit before the ground clamp.\<close>

definition move_unit ::
  "('r, 'c, 'm) raylib \<Rightarrow> 'm Model \<Rightarrow> real \<Rightarrow> nat \<Rightarrow> 'r state \<Rightarrow> Unit \<times> 'r" where
  "move_unit rl model deltaTime self s =
     (let (u1, actualTarget, g1) = resolve_target rl deltaTime (units s self) (rng s);
          direction = Vector3Subtract actualTarget (position u1);
          distanceToTarget = Vector3Length direction
      in if distanceToTarget > 1 / 10 then
           let direction = Vector3Normalize direction
           in if willCollide rl model s self (position u1) direction
              then avoid rl deltaTime direction u1 g1
              else (advance rl deltaTime direction u1, g1)
         else (u1, g1))"

definition UpdateUnit ::
  "('r, 'c, 'm) raylib \<Rightarrow> 'm Model \<Rightarrow> real \<Rightarrow> nat \<Rightarrow> 'r state \<Rightarrow> 'r state" where
  "UpdateUnit rl model deltaTime self s =
     (if \<not> active (units s self) then s
      else
        let (u, g) = move_unit rl model deltaTime self s;
            groundHeight = GetGroundHeight rl (position u) model
        in s\<lparr>units := (units s)(self := u\<lparr>position := (position u)\<lparr>v3y := groundHeight\<rparr>\<rparr>),
             rng := g\<rparr>)"

text \<open>
  The update takes the avoidance branch when the unit is active, its target lies beyond
  the deadband, and the obstacle ray or the proximity scan reports a collision.
\<close>

definition takes_avoidance ::
  "('r, 'c, 'm) raylib \<Rightarrow> 'm Model \<Rightarrow> real \<Rightarrow> nat \<Rightarrow> 'r state \<Rightarrow> bool" where
  "takes_avoidance rl model deltaTime self s =
     (let (u1, actualTarget, g1) = resolve_target rl deltaTime (units s self) (rng s);
          direction = Vector3Subtract actualTarget (position u1)
      in active (units s self) \<and> Vector3Length direction > 1 / 10 \<and>
         willCollide rl model s self (position u1) (Vector3Normalize direction))"




section \<open>The triangles a query can see\<close>

text \<open>
  For stating what the queries compute: the triangles of a mesh in either layout, the
  collisions of a ray with every triangle of the scene, and the collisions with the
  triangles of those meshes whose bounding box the ray hits.
\<close>

definition mesh_triangles ::
  "('r, 'c, 'm) raylib \<Rightarrow> 'm \<Rightarrow> Mesh \<Rightarrow> (Vector3 \<times> Vector3 \<times> Vector3) list" where
  "mesh_triangles rl tr mesh =
     (case indices mesh of
        Some ind \<Rightarrow> map (indexed_triangle rl tr mesh ind) [0..<triangleCount mesh]
      | None \<Rightarrow> map (plain_triangle rl tr mesh) [0..<triangleCount mesh])"

definition scene_collisions :: "('r, 'c, 'm) raylib \<Rightarrow> Ray \<Rightarrow> 'm Model \<Rightarrow> RayCollision list" where
  "scene_collisions rl ray model =
     concat (map (\<lambda>i. map (triCollision rl ray) (mesh_triangles rl (transform model) (meshes model i)))
                 [0..<meshCount model])"

definition mesh_candidates :: "('r, 'c, 'm) raylib \<Rightarrow> Ray \<Rightarrow> 'm \<Rightarrow> Mesh \<Rightarrow> RayCollision list" where
  "mesh_candidates rl ray tr mesh =
     (if hit (GetRayCollisionBox rl ray (GetMeshBoundingBox rl mesh))
      then map (triCollision rl ray) (mesh_triangles rl tr mesh) else [])"

definition ground_candidates :: "('r, 'c, 'm) raylib \<Rightarrow> Ray \<Rightarrow> 'm Model \<Rightarrow> RayCollision list" where
  "ground_candidates rl ray model =
     concat (map (\<lambda>i. mesh_candidates rl ray (transform model) (meshes model i))
                 [0..<meshCount model])"

section \<open>A concrete environment and concrete scenes\<close>

text \<open>
  To run the definitions on concrete inputs, \<open>flat_world\<close> stands in for raylib and libm:
  \<^item> a triangle is seen as the horizontal plane through its first vertex, and only by a
    ray pointing straight down from above it, which is what an exact ray test returns for
    a wide horizontal triangle under the ray's origin;
  \<^item> every bounding box is reported as hit, the scene transform is the identity (as
    \<open>main\<close> sets it), the camera is identified with the ray it casts, and a point is
    projected to the screen by dropping its height;
  \<^item> \<open>GetRandomValue\<close> steps a counter, \<open>cosf\<close> and \<open>sinf\<close> are the real functions, and
    \<open>atan2f\<close> is the two-argument arctangent.
\<close>

definition atan2 :: "real \<Rightarrow> real \<Rightarrow> real" where
  "atan2 b a =
     (if a > 0 then arctan (b / a)
      else if a < 0 \<and> b \<ge> 0 then arctan (b / a) + pi
      else if a < 0 then arctan (b / a) - pi
      else if b > 0 then pi / 2
      else if b < 0 then - pi / 2
      else 0)"

definition plane_below :: "Ray \<Rightarrow> Vector3 \<Rightarrow> Vector3 \<Rightarrow> Vector3 \<Rightarrow> RayCollision" where
  "plane_below ray v0 v1 v2 =
     (if v3x (ray_direction ray) = 0 \<and> v3y (ray_direction ray) = - 1 \<and>
         v3z (ray_direction ray) = 0 \<and> v3y v0 < v3y (ray_position ray)
      then \<lparr>hit = True, distance = v3y (ray_position ray) - v3y v0,
            point = (ray_position ray)\<lparr>v3y := v3y v0\<rparr>\<rparr>
      else \<lparr>hit = False, distance = 0, point = \<lparr>v3x = 0, v3y = 0, v3z = 0\<rparr>\<rparr>)"

definition flat_world :: "(nat, Ray, unit) raylib" where
  "flat_world =
     \<lparr>GetRandomValue = (\<lambda>lo hi g. (if hi < lo then lo else lo + int g mod (hi - lo + 1), Suc g)),
      cosf = cos,
      sinf = sin,
      atan2f = atan2,
      GetMeshBoundingBox = (\<lambda>mesh. \<lparr>bmin = vertex_at mesh 0, bmax = vertex_at mesh 0\<rparr>),
      GetRayCollisionBox = (\<lambda>ray box. \<lparr>hit = True, distance = 0, point = ray_position ray\<rparr>),
      Vector3Transform = (\<lambda>v m. v),
      GetRayCollisionTriangle = plane_below,
      GetMouseRay = (\<lambda>mousePos camera. camera),
      GetWorldToScreen = (\<lambda>p camera. \<lparr>v2x = v3x p, v2y = v3z p\<rparr>)\<rparr>"



definition origin :: Vector3 where
  "origin = \<lparr>v3x = 0, v3y = 0, v3z = 0\<rparr>"

text \<open>A mesh of one triangle lying at height \<open>h\<close>, in the indexed or the plain layout.\<close>

definition floor_mesh :: "real \<Rightarrow> bool \<Rightarrow> Mesh" where
  "floor_mesh h indexed =
     \<lparr>triangleCount = 1,
      vertices = (\<lambda>k. if k mod 3 = 1 then h else 0),
      indices = (if indexed then Some (\<lambda>k. k) else None)\<rparr>"

definition one_floor :: "real \<Rightarrow> bool \<Rightarrow> unit Model" where
  "one_floor h indexed = \<lparr>transform = (), meshCount = 1, meshes = (\<lambda>i. floor_mesh h indexed)\<rparr>"

text \<open>Two meshes: a plain floor at height \<open>-5\<close> first, an indexed floor at \<open>-3\<close> second.\<close>

definition two_floors :: "unit Model" where
  "two_floors =
     \<lparr>transform = (), meshCount = 2,
      meshes = (\<lambda>i. if i = 0 then floor_mesh (- 5) False else floor_mesh (- 3) True)\<rparr>"

text \<open>A camera ray looking straight down from height 10, and a horizontal one below ground.\<close>

definition looking_down :: Ray where
  "looking_down =
     \<lparr>ray_position = \<lparr>v3x = 0, v3y = 10, v3z = 0\<rparr>,
      ray_direction = \<lparr>v3x = 0, v3y = - 1, v3z = 0\<rparr>\<rparr>"

definition looking_level :: Ray where
  "looking_level =
     \<lparr>ray_position = \<lparr>v3x = 0, v3y = - 1, v3z = 0\<rparr>,
      ray_direction = \<lparr>v3x = 1, v3y = 0, v3z = 0\<rparr>\<rparr>"

definition blank_unit :: Unit where
  "blank_unit =
     \<lparr>position = origin, velocity = origin, targetPosition = origin, commandTarget = origin,
      hasCommand = False, rotation = 0, moveTimer = 0, unit_size = UNIT_SIZE, color = WHITE,
      active = False, selected = False, groupId = 0\<rparr>"

definition blank_group :: ControlGroup where
  "blank_group = \<lparr>unitIndices = (\<lambda>j. 0), groupUnitCount = 0, groupActive = False\<rparr>"

definition unit_at :: "Vector3 \<Rightarrow> Unit" where
  "unit_at p = blank_unit\<lparr>position := p, targetPosition := p, commandTarget := p, active := True\<rparr>"

text \<open>
  Three active units. Units 0 and 2 are selected; units 0 and 1 form group 2.
\<close>

definition regroup :: "nat state" where
  "regroup =
     \<lparr>units = (\<lambda>i. if i = 0 then (unit_at origin)\<lparr>selected := True, groupId := 2\<rparr>
                   else if i = 1 then (unit_at origin)\<lparr>groupId := 2\<rparr>
                   else if i = 2 then (unit_at origin)\<lparr>selected := True\<rparr>
                   else blank_unit),
      unitCount = 3,
      controlGroups = (\<lambda>g. if g = 2
                           then \<lparr>unitIndices = (\<lambda>j. j), groupUnitCount = 2, groupActive = True\<rparr>
                           else blank_group),
      rng = 0\<rparr>"

text \<open>
  Two active units. Unit 0 is the only member of group 1 and is not selected; unit 1 is
  selected and belongs to no group.
\<close>

definition grouped :: "nat state" where
  "grouped =
     \<lparr>units = (\<lambda>i. if i = 0 then (unit_at origin)\<lparr>groupId := 1\<rparr>
                   else if i = 1 then (unit_at origin)\<lparr>selected := True\<rparr>
                   else blank_unit),
      unitCount = 2,
      controlGroups = (\<lambda>g. if g = 1
                           then \<lparr>unitIndices = (\<lambda>j. 0), groupUnitCount = 1, groupActive = True\<rparr>
                           else blank_group),
      rng = 0\<rparr>"

text \<open>
  Two active units standing on the same spot of a floor at height 0. In \<open>crowded\<close>
  unit 0 wanders towards a point one unit away, with its timer still running; in
  \<open>escorted\<close> it is commanded there.
\<close>

definition crowded :: "nat state" where
  "crowded =
     \<lparr>units = (\<lambda>i. if i = 0
                   then (unit_at \<lparr>v3x = 0, v3y = 1 / 5, v3z = 0\<rparr>)
                          \<lparr>targetPosition := \<lparr>v3x = 1, v3y = 1 / 5, v3z = 0\<rparr>, moveTimer := 5\<rparr>
                   else if i = 1 then unit_at \<lparr>v3x = 0, v3y = 1 / 5, v3z = 0\<rparr>
                   else blank_unit),
      unitCount = 2,
      controlGroups = (\<lambda>g. blank_group),
      rng = 90\<rparr>"

definition escorted :: "nat state" where
  "escorted =
     \<lparr>units = (\<lambda>i. if i = 0
                   then (unit_at \<lparr>v3x = 0, v3y = 1 / 5, v3z = 0\<rparr>)
                          \<lparr>commandTarget := \<lparr>v3x = 1, v3y = 1 / 5, v3z = 0\<rparr>, hasCommand := True\<rparr>
                   else if i = 1 then unit_at \<lparr>v3x = 0, v3y = 1 / 5, v3z = 0\<rparr>
                   else blank_unit),
      unitCount = 2,
      controlGroups = (\<lambda>g. blank_group),
      rng = 90\<rparr>"


text \<open>
  States with one commanded unit. \<open>marcher\<close> stands on a floor at height 3, one unit
  from its target on the same floor; \<open>below_target\<close> stands on a floor at height 0 with
  its target one unit above it in the open air; \<open>walker\<close> starts in the air above a floor
  at height 3; \<open>hoverer\<close> moves at height 0 over a floor at height \<open>-9990\<close>.
\<close>

definition lone_unit :: "Vector3 \<Rightarrow> Vector3 \<Rightarrow> nat state" where
  "lone_unit p t =
     \<lparr>units = (\<lambda>i. if i = 0 then (unit_at p)\<lparr>commandTarget := t, hasCommand := True\<rparr>
                   else blank_unit),
      unitCount = 1,
      controlGroups = (\<lambda>g. blank_group),
      rng = 0\<rparr>"



definition walker :: "nat state" where
  "walker = lone_unit \<lparr>v3x = 0, v3y = 7, v3z = 0\<rparr> \<lparr>v3x = 1, v3y = 7, v3z = 0\<rparr>"

definition hoverer :: "nat state" where
  "hoverer = lone_unit \<lparr>v3x = 0, v3y = 0, v3z = 0\<rparr> \<lparr>v3x = 1, v3y = 0, v3z = 0\<rparr>"

definition full_state :: "nat state" where
  "full_state =
     \<lparr>units = (\<lambda>i. blank_unit\<lparr>active := True\<rparr>), unitCount = 100,
      controlGroups = (\<lambda>g. blank_group), rng = 0\<rparr>"

section \<open>Properties of spawning\<close>

lemma SpawnUnit_count_le:
  "unitCount s \<le> MAX_UNITS \<Longrightarrow> unitCount (SpawnUnit rl c r s) \<le> MAX_UNITS"
  by (simp add: SpawnUnit_def Let_def split: prod.splits)

lemma SpawnUnit_high_slots:
  "unitCount s \<le> MAX_UNITS \<Longrightarrow> MAX_UNITS \<le> k \<Longrightarrow> units (SpawnUnit rl c r s) k = units s k"
  by (simp add: SpawnUnit_def Let_def split: prod.splits)

lemma spawn_many_bounded:
  "unitCount s \<le> MAX_UNITS \<Longrightarrow>
   unitCount (spawn_many rl reqs s) \<le> MAX_UNITS \<and>
   (\<forall>k\<ge>MAX_UNITS. units (spawn_many rl reqs s) k = units s k)"
proof (induction reqs arbitrary: s)
  case Nil
  then show ?case by simp
next
  case (Cons q reqs)
  obtain c r where q: "q = (c, r)" by (cases q)
  from Cons.prems have le: "unitCount (SpawnUnit rl c r s) \<le> MAX_UNITS"
    by (rule SpawnUnit_count_le)
  from Cons.IH [OF le] Cons.prems show ?case
    by (simp add: q SpawnUnit_high_slots)
qed

text \<open>
  Claim C9. When \<open>unitCount\<close> has reached \<open>MAX_UNITS\<close>, \<open>SpawnUnit\<close> returns the state it
  was given: no slot, no counter and no random number is touched, and nothing is reported.
  Hence, from a state within the limit, no run of spawn requests takes \<open>unitCount\<close> above
  \<open>MAX_UNITS\<close> or writes a slot at or beyond index \<open>MAX_UNITS\<close>.
\<close>

theorem C9_spawn_beyond_limit_is_noop:
  "(MAX_UNITS \<le> unitCount s \<longrightarrow> SpawnUnit rl c r s = s) \<and>
   (unitCount s \<le> MAX_UNITS \<longrightarrow>
      unitCount (spawn_many rl reqs s) \<le> MAX_UNITS \<and>
      (\<forall>k\<ge>MAX_UNITS. units (spawn_many rl reqs s) k = units s k))"
  using spawn_many_bounded [of s rl reqs] by (simp add: SpawnUnit_def)

theorem C9_spawn_beyond_limit_witness:
  "MAX_UNITS \<le> unitCount full_state \<and>
   SpawnUnit flat_world origin 5 full_state = full_state \<and>
   unitCount (spawn_many flat_world [(origin, 5), (origin, 5)] full_state) \<le> MAX_UNITS"
  using C9_spawn_beyond_limit_is_noop [of full_state flat_world origin 5 "[(origin, 5), (origin, 5)]"]
  by (simp add: full_state_def MAX_UNITS_def)

section \<open>Properties of the spatial queries\<close>

subsection \<open>GetGroundHeight\<close>

lemma ground_mesh_step_fold:
  "ground_mesh_step rl ray tr mesh acc = fold ground_tri_step (mesh_candidates rl ray tr mesh) acc"
  by (simp add: ground_mesh_step_def mesh_candidates_def mesh_triangles_def fold_map comp_def
           split: option.splits)

lemma ground_scan_fold:
  "fold (\<lambda>i. ground_mesh_step rl ray tr (ms i)) js acc =
   fold ground_tri_step (concat (map (\<lambda>i. mesh_candidates rl ray tr (ms i)) js)) acc"
  by (induction js arbitrary: acc) (simp_all add: ground_mesh_step_fold)

lemma ground_tri_step_pair:
  "ground_tri_step c (d0, y0) =
     (if hit c \<and> distance c < d0 then (distance c, v3y (point c)) else (d0, y0))"
  by (simp add: ground_tri_step_def)

text \<open>
  The scan ends with the least distance among the hits closer than the starting distance,
  and with the height of a hit at that distance; with no such hit it ends as it started.
\<close>

lemma ground_tri_fold_nearest:
  "fold ground_tri_step cs (d0, y0) = (d, y) \<Longrightarrow>
     d \<le> d0 \<and> (\<forall>c\<in>set cs. hit c \<longrightarrow> d \<le> distance c) \<and>
     ((d = d0 \<and> y = y0 \<and> \<not> (\<exists>c\<in>set cs. hit c \<and> distance c < d0)) \<or>
      (\<exists>c\<in>set cs. hit c \<and> distance c = d \<and> v3y (point c) = y \<and> d < d0))"
proof (induction cs arbitrary: d0 y0)
  case Nil
  then show ?case by simp
next
  case (Cons c cs)
  show ?case
  proof (cases "hit c \<and> distance c < d0")
    case True
    with Cons.prems have "fold ground_tri_step cs (distance c, v3y (point c)) = (d, y)"
      by (simp add: ground_tri_step_pair)
    from Cons.IH [OF this] True show ?thesis by auto
  next
    case False
    with Cons.prems have "fold ground_tri_step cs (d0, y0) = (d, y)"
      by (simp add: ground_tri_step_pair)
    from Cons.IH [OF this] False show ?thesis by auto
  qed
qed

lemmas flat_world_eval =
  flat_world_def one_floor_def two_floors_def floor_mesh_def origin_def down_ray_def
  looking_down_def looking_level_def plane_below_def triCollision_def plain_triangle_def
  indexed_triangle_def vertex_at_def mesh_triangles_def mesh_candidates_def
  ground_candidates_def scene_collisions_def ground_mesh_step_def ground_tri_step_def
  mouse_mesh_step_def mouse_tri_step_def GetGroundHeight_def GetGroundPositionFromMouse_def
  ground_plane_intersection_def

text \<open>
  Claim C4, as stated, fails. \<open>GetGroundHeight\<close> starts its search with the distance
  \<open>10000\<close> and accepts only strictly closer hits. A floor \<open>10000\<close> below the ray's origin
  is hit by the downward ray, and the function still returns the default height.
\<close>

theorem C4_counterexample_floor_at_sentinel_distance:
  "scene_collisions flat_world (down_ray origin) (one_floor (- 9990) False) =
     [\<lparr>hit = True, distance = 10000, point = \<lparr>v3x = 0, v3y = - 9990, v3z = 0\<rparr>\<rparr>] \<and>
   GetGroundHeight flat_world origin (one_floor (- 9990) False) = UNIT_HEIGHT_OFFSET \<and>
   GetGroundHeight flat_world origin (one_floor (- 9990) False) \<noteq> - 9990 + UNIT_HEIGHT_OFFSET"
  by (simp add: flat_world_eval)

text \<open>
  Claim C4, amended. Cast the ray straight down from \<open>10\<close> above the query point and take
  the triangles, in either layout, of every mesh whose bounding box the ray hits. If the
  ray hits one of them closer than \<open>10000\<close>, \<open>GetGroundHeight\<close> returns the height of a
  hit that is nearest among all of them, over all meshes, plus \<open>UNIT_HEIGHT_OFFSET\<close>;
  otherwise it returns \<open>UNIT_HEIGHT_OFFSET\<close>.
\<close>

theorem C4_ground_height_is_nearest_hit:
  "(if \<exists>c\<in>set (ground_candidates rl (down_ray pos) model). hit c \<and> distance c < 10000
    then \<exists>c\<in>set (ground_candidates rl (down_ray pos) model).
           hit c \<and> distance c < 10000 \<and>
           (\<forall>c'\<in>set (ground_candidates rl (down_ray pos) model).
               hit c' \<longrightarrow> distance c \<le> distance c') \<and>
           GetGroundHeight rl pos model = v3y (point c) + UNIT_HEIGHT_OFFSET
    else GetGroundHeight rl pos model = UNIT_HEIGHT_OFFSET)"
proof -
  let ?cs = "ground_candidates rl (down_ray pos) model"
  obtain d y where f: "fold ground_tri_step ?cs (10000, 0) = (d, y)"
    by (cases "fold ground_tri_step ?cs (10000, 0)")
  have g: "GetGroundHeight rl pos model =
             (if d \<ge> 10000 then UNIT_HEIGHT_OFFSET else y + UNIT_HEIGHT_OFFSET)"
    using f by (simp add: GetGroundHeight_def ground_scan_fold ground_candidates_def)
  from ground_tri_fold_nearest [OF f] show ?thesis
    unfolding g by auto
qed

text \<open>
  With a plain floor at \<open>-5\<close> in the first mesh and an indexed floor at \<open>-3\<close> in the
  second, the result is taken from the second mesh, the nearer one.
\<close>

theorem C4_ground_height_witness:
  "ground_candidates flat_world (down_ray origin) two_floors =
     [\<lparr>hit = True, distance = 15, point = \<lparr>v3x = 0, v3y = - 5, v3z = 0\<rparr>\<rparr>,
      \<lparr>hit = True, distance = 13, point = \<lparr>v3x = 0, v3y = - 3, v3z = 0\<rparr>\<rparr>] \<and>
   GetGroundHeight flat_world origin two_floors = - 3 + UNIT_HEIGHT_OFFSET"
proof -
  have cs: "ground_candidates flat_world (down_ray origin) two_floors =
     [\<lparr>hit = True, distance = 15, point = \<lparr>v3x = 0, v3y = - 5, v3z = 0\<rparr>\<rparr>,
      \<lparr>hit = True, distance = 13, point = \<lparr>v3x = 0, v3y = - 3, v3z = 0\<rparr>\<rparr>]"
    by (simp add: flat_world_eval numeral_2_eq_2)
  from C4_ground_height_is_nearest_hit [of flat_world origin two_floors]
  show ?thesis unfolding cs by auto
qed

subsection \<open>GetGroundPositionFromMouse\<close>

lemma mouse_mesh_step_plain:
  "indices mesh = None \<Longrightarrow> mouse_mesh_step rl ray tr mesh acc = acc"
  by (simp add: mouse_mesh_step_def)

lemma mouse_scan_plain:
  "\<forall>i\<in>set js. indices (ms i) = None \<Longrightarrow>
   fold (\<lambda>i. mouse_mesh_step rl ray tr (ms i)) js acc = acc"
  by (induction js arbitrary: acc) (simp_all add: mouse_mesh_step_plain)

lemma mouse_scan_cong:
  "\<forall>i\<in>set js. ms' i = ms i \<or> (indices (ms i) = None \<and> indices (ms' i) = None) \<Longrightarrow>
   fold (\<lambda>i. mouse_mesh_step rl ray tr (ms' i)) js acc =
   fold (\<lambda>i. mouse_mesh_step rl ray tr (ms i)) js acc"
proof (induction js arbitrary: acc)
  case Nil
  show ?case by simp
next
  case (Cons j js)
  from Cons.prems have "mouse_mesh_step rl ray tr (ms' j) acc = mouse_mesh_step rl ray tr (ms j) acc"
    by (auto simp add: mouse_mesh_step_plain)
  with Cons show ?case by simp
qed

text \<open>
  Claim C10. \<open>GetGroundPositionFromMouse\<close> tests triangles only in meshes that carry an
  index array. A mesh without one never registers a hit: when no mesh of the scene has
  an index array the result is the intersection with the plane \<open>y = 0\<close>, whatever the
  geometry; and in general, replacing the non-indexed meshes of a scene by any other
  non-indexed meshes does not change the result.
\<close>

theorem C10_mouse_projection_ignores_plain_meshes:
  "((\<forall>i<meshCount model. indices (meshes model i) = None) \<longrightarrow>
      GetGroundPositionFromMouse rl mousePos camera model =
        ground_plane_intersection (GetMouseRay rl mousePos camera)) \<and>
   (transform model' = transform model \<and> meshCount model' = meshCount model \<and>
    (\<forall>i<meshCount model. meshes model' i = meshes model i \<or>
        (indices (meshes model i) = None \<and> indices (meshes model' i) = None)) \<longrightarrow>
      GetGroundPositionFromMouse rl mousePos camera model' =
      GetGroundPositionFromMouse rl mousePos camera model)"
proof (intro conjI impI)
  assume "\<forall>i<meshCount model. indices (meshes model i) = None"
  then have "\<forall>i\<in>set [0..<meshCount model]. indices (meshes model i) = None"
    by simp
  then show "GetGroundPositionFromMouse rl mousePos camera model =
        ground_plane_intersection (GetMouseRay rl mousePos camera)"
    by (simp add: GetGroundPositionFromMouse_def mouse_scan_plain)
next
  assume a: "transform model' = transform model \<and> meshCount model' = meshCount model \<and>
    (\<forall>i<meshCount model. meshes model' i = meshes model i \<or>
        (indices (meshes model i) = None \<and> indices (meshes model' i) = None))"
  then have "\<forall>i\<in>set [0..<meshCount model]. meshes model' i = meshes model i \<or>
        (indices (meshes model i) = None \<and> indices (meshes model' i) = None)"
    by simp
  then have "fold (\<lambda>i. mouse_mesh_step rl (GetMouseRay rl mousePos camera) (transform model)
                      (meshes model' i)) [0..<meshCount model] acc =
             fold (\<lambda>i. mouse_mesh_step rl (GetMouseRay rl mousePos camera) (transform model)
                      (meshes model i)) [0..<meshCount model] acc" for acc
    by (rule mouse_scan_cong)
  with a show "GetGroundPositionFromMouse rl mousePos camera model' =
      GetGroundPositionFromMouse rl mousePos camera model"
    by (simp add: GetGroundPositionFromMouse_def Let_def)
qed

text \<open>
  A camera looking straight down at a floor at height \<open>3\<close>. Stored without indices, the
  floor is passed through and the point on the plane \<open>y = 0\<close> is returned, whatever the
  floor's height; stored with indices, the same floor is hit. \<open>GetGroundHeight\<close> sees
  the floor in the plain layout as well.
\<close>

theorem C10_mouse_projection_witness:
  "meshCount (one_floor 3 False) = 1 \<and> indices (meshes (one_floor 3 False) 0) = None \<and>
   GetGroundPositionFromMouse flat_world \<lparr>v2x = 0, v2y = 0\<rparr> looking_down (one_floor 3 False) =
     Inr \<lparr>v3x = 0, v3y = UNIT_HEIGHT_OFFSET, v3z = 0\<rparr> \<and>
   GetGroundPositionFromMouse flat_world \<lparr>v2x = 0, v2y = 0\<rparr> looking_down (one_floor 7 False) =
     GetGroundPositionFromMouse flat_world \<lparr>v2x = 0, v2y = 0\<rparr> looking_down (one_floor 3 False) \<and>
   GetGroundPositionFromMouse flat_world \<lparr>v2x = 0, v2y = 0\<rparr> looking_down (one_floor 3 True) =
     Inr \<lparr>v3x = 0, v3y = 3 + UNIT_HEIGHT_OFFSET, v3z = 0\<rparr> \<and>
   GetGroundHeight flat_world origin (one_floor 3 False) = 3 + UNIT_HEIGHT_OFFSET"
proof -
  have plain: "\<forall>i<meshCount (one_floor 3 False). indices (meshes (one_floor 3 False) i) = None"
    by (simp add: one_floor_def floor_mesh_def)
  have same: "transform (one_floor 7 False) = transform (one_floor 3 False) \<and>
      meshCount (one_floor 7 False) = meshCount (one_floor 3 False) \<and>
      (\<forall>i<meshCount (one_floor 3 False).
          meshes (one_floor 7 False) i = meshes (one_floor 3 False) i \<or>
          (indices (meshes (one_floor 3 False) i) = None \<and>
           indices (meshes (one_floor 7 False) i) = None))"
    by (simp add: one_floor_def floor_mesh_def)
  have ray: "ground_plane_intersection (GetMouseRay flat_world \<lparr>v2x = 0, v2y = 0\<rparr> looking_down) =
      Inr \<lparr>v3x = 0, v3y = UNIT_HEIGHT_OFFSET, v3z = 0\<rparr>"
    by (simp add: flat_world_def looking_down_def ground_plane_intersection_def)
  have indexed: "GetGroundPositionFromMouse flat_world \<lparr>v2x = 0, v2y = 0\<rparr> looking_down
      (one_floor 3 True) = Inr \<lparr>v3x = 0, v3y = 3 + UNIT_HEIGHT_OFFSET, v3z = 0\<rparr>"
    by (simp add: flat_world_eval)
  have ground: "GetGroundHeight flat_world origin (one_floor 3 False) = 3 + UNIT_HEIGHT_OFFSET"
    by (simp add: flat_world_eval)
  from C10_mouse_projection_ignores_plain_meshes
         [of "one_floor 3 False" flat_world "\<lparr>v2x = 0, v2y = 0\<rparr>" looking_down "one_floor 7 False"]
       plain same ray indexed ground
  show ?thesis by (simp add: one_floor_def floor_mesh_def)
qed

text \<open>
  Claim C3: the source computes \<open>-ray.position.y / ray.direction.y\<close> whenever the scan
  found no hit; nothing tests \<open>ray.direction.y\<close>. At a horizontal camera ray that misses
  the scene the division by zero is executed, and the default point is not what the
  model returns.
\<close>

theorem C3_parallel_ray_divides_by_zero:
  "v3y (ray_direction (GetMouseRay flat_world \<lparr>v2x = 400, v2y = 300\<rparr> looking_level)) = 0 \<and>
   GetGroundPositionFromMouse flat_world \<lparr>v2x = 400, v2y = 300\<rparr> looking_level (one_floor 0 True) =
     Inl DivisionByZero \<and>
   GetGroundPositionFromMouse flat_world \<lparr>v2x = 400, v2y = 300\<rparr> looking_level (one_floor 0 True) \<noteq>
     Inr \<lparr>v3x = 0, v3y = UNIT_HEIGHT_OFFSET, v3z = 0\<rparr>"
  by (simp add: flat_world_eval)

section \<open>Properties of selection and control groups\<close>

subsection \<open>Loops over the unit slots\<close>

lemma fold_slots:
  "fold (slot_update f) [0..<n] s =
   s\<lparr>units := (\<lambda>k. if k < n then f k (units s k) else units s k)\<rparr>"
proof (induction n)
  case 0
  show ?case by simp
next
  case (Suc n)
  have "fold (slot_update f) [0..<Suc n] s = slot_update f n (fold (slot_update f) [0..<n] s)"
    by simp
  also have "\<dots> = slot_update f n (s\<lparr>units := (\<lambda>k. if k < n then f k (units s k) else units s k)\<rparr>)"
    by (simp only: Suc.IH)
  also have "\<dots> = s\<lparr>units := (\<lambda>k. if k < Suc n then f k (units s k) else units s k)\<rparr>"
    by (rule state.equality) (auto simp add: slot_update_def fun_eq_iff less_Suc_eq)
  finally show ?case .
qed

lemma deselect_all_eq:
  "deselect_all s =
   s\<lparr>units := (\<lambda>k. if k < unitCount s then (units s k)\<lparr>selected := False\<rparr> else units s k)\<rparr>"
proof -
  have h: "(deselect_step :: nat \<Rightarrow> 'a state \<Rightarrow> 'a state) = slot_update (\<lambda>i u. u\<lparr>selected := False\<rparr>)"
    by (intro ext) (simp add: slot_update_def deselect_step_def)
  show ?thesis
    unfolding deselect_all_def h fold_slots by simp
qed

lemma SelectUnitsInBox_eq:
  "SelectUnitsInBox rl start endp camera s =
   s\<lparr>units := (\<lambda>k. if k < unitCount s
                     then (units s k)\<lparr>selected := active (units s k) \<and>
                                         in_box rl start endp camera (position (units s k))\<rparr>
                     else units s k)\<rparr>"
proof -
  let ?f = "\<lambda>(i::nat) u. if active u \<and> in_box rl start endp camera (position u)
                   then u\<lparr>selected := True\<rparr> else u"
  have body: "box_step rl camera (min (v2x start) (v2x endp)) (max (v2x start) (v2x endp))
                (min (v2y start) (v2y endp)) (max (v2y start) (v2y endp)) =
        (slot_update ?f :: nat \<Rightarrow> 'a state \<Rightarrow> 'a state)"
    by (intro ext) (simp add: in_box_def Let_def slot_update_def box_step_def)
  have "SelectUnitsInBox rl start endp camera s =
          fold (slot_update ?f) [0..<unitCount (deselect_all s)] (deselect_all s)"
    unfolding SelectUnitsInBox_def Let_def body ..
  also have "\<dots> = s\<lparr>units := (\<lambda>k. if k < unitCount s
                     then (units s k)\<lparr>selected := active (units s k) \<and>
                                         in_box rl start endp camera (position (units s k))\<rparr>
                     else units s k)\<rparr>"
    unfolding fold_slots
    by (rule state.equality) (auto simp add: deselect_all_eq fun_eq_iff)
  finally show ?thesis .
qed

text \<open>
  Claim C7. \<open>SelectUnitsInBox\<close> is idempotent: with the same two corners and the same
  camera, a second call returns the state the first call returned (the unit positions
  are part of that state), and the two corners can be given in either order.
\<close>

theorem C7_box_select_idempotent:
  "SelectUnitsInBox rl a b camera (SelectUnitsInBox rl a b camera s) =
     SelectUnitsInBox rl a b camera s \<and>
   SelectUnitsInBox rl b a camera s = SelectUnitsInBox rl a b camera s"
proof -
  have "in_box rl b a camera = in_box rl a b camera"
    by (intro ext) (simp add: in_box_def min.commute max.commute)
  then show ?thesis
    unfolding SelectUnitsInBox_eq
    by (intro conjI state.equality) (auto simp add: fun_eq_iff)
qed

subsection \<open>AssignControlGroup\<close>

lemma shift_fold:
  "fold (\<lambda>k a. a(k := a (Suc k))) [j..<m] (a :: nat \<Rightarrow> nat) =
   (\<lambda>k. if j \<le> k \<and> k < m then a (Suc k) else a k)"
proof (induction m)
  case 0
  show ?case by simp
next
  case (Suc m)
  show ?case
  proof (cases "j \<le> m")
    case True
    then have "fold (\<lambda>k a. a(k := a (Suc k))) [j..<Suc m] a =
        (fold (\<lambda>k a. a(k := a (Suc k))) [j..<m] a)
          (m := (fold (\<lambda>k a. a(k := a (Suc k))) [j..<m] a) (Suc m))"
      by simp
    also have "\<dots> = (\<lambda>k. if j \<le> k \<and> k < Suc m then a (Suc k) else a k)"
      unfolding Suc.IH using True by (auto simp add: fun_eq_iff)
    finally show ?thesis .
  next
    case False
    then show ?thesis by (auto simp add: fun_eq_iff)
  qed
qed

lemma members_shift_down:
  assumes "j < groupUnitCount g"
  shows "members ((shift_down j g)\<lparr>groupUnitCount := groupUnitCount g - 1\<rparr>) =
         take j (members g) @ drop (Suc j) (members g)"
proof (rule nth_equalityI)
  show "length (members ((shift_down j g)\<lparr>groupUnitCount := groupUnitCount g - 1\<rparr>)) =
        length (take j (members g) @ drop (Suc j) (members g))"
    using assms by (simp add: members_def)
next
  fix i
  assume "i < length (members ((shift_down j g)\<lparr>groupUnitCount := groupUnitCount g - 1\<rparr>))"
  then have i: "i < groupUnitCount g - 1" by (simp add: members_def)
  with assms show "members ((shift_down j g)\<lparr>groupUnitCount := groupUnitCount g - 1\<rparr>) ! i =
        (take j (members g) @ drop (Suc j) (members g)) ! i"
    by (simp add: members_def shift_down_def shift_fold nth_append)
qed

lemma members_remove_from_group:
  "j \<le> groupUnitCount g \<Longrightarrow>
   members (remove_from_group i j g) = take j (members g) @ remove1 i (drop j (members g))"
proof (induction i j g rule: remove_from_group.induct)
  case (1 i j g)
  show ?case
  proof (cases "j < groupUnitCount g")
    case False
    with "1.prems" show ?thesis by (subst remove_from_group.simps) (simp add: members_def)
  next
    case True
    then have len: "j < length (members g)" by (simp add: members_def)
    have nth: "members g ! j = unitIndices g j" using True by (simp add: members_def)
    have split: "drop j (members g) = unitIndices g j # drop (Suc j) (members g)"
      using Cons_nth_drop_Suc [OF len] nth by simp
    show ?thesis
    proof (cases "unitIndices g j = i")
      case True
      with \<open>j < groupUnitCount g\<close> members_shift_down [of j g] show ?thesis
        by (subst remove_from_group.simps) (simp add: split)
    next
      case False
      with \<open>j < groupUnitCount g\<close> "1.IH" have
        "members (remove_from_group i j g) =
           take (j + 1) (members g) @ remove1 i (drop (j + 1) (members g))"
        by (subst remove_from_group.simps) simp
      also have "\<dots> = take j (members g) @ remove1 i (drop j (members g))"
        using False len nth by (simp add: split take_Suc_conv_app_nth)
      finally show ?thesis .
    qed
  qed
qed

lemma groupActive_remove_from_group:
  "groupActive (remove_from_group i j g) = groupActive g"
proof (induction i j g rule: remove_from_group.induct)
  case (1 i j g)
  then show ?case
    by (subst remove_from_group.simps) (simp add: shift_down_def)
qed

lemma remove_from_group_distinct:
  "distinct (members g) \<Longrightarrow>
   members (remove_from_group i 0 g) = filter (\<lambda>k. k \<noteq> i) (members g)"
  by (auto simp add: members_remove_from_group distinct_remove1_removeAll removeAll_filter_not_eq
        intro: filter_cong)


lemma assign_step_units:
  "units (assign_step G i s) =
     (if active (units s i) \<and> selected (units s i)
      then (units s)(i := (units s i)\<lparr>groupId := G\<rparr>) else units s)"
  by (simp add: assign_step_def Let_def)

lemma assign_step_frame:
  "unitCount (assign_step G i s) = unitCount s" "rng (assign_step G i s) = rng s"
  by (simp_all add: assign_step_def Let_def)

lemma assign_step_groups:
  "controlGroups (assign_step G i s) =
     (if active (units s i) \<and> selected (units s i) \<and> 0 < groupId (units s i)
      then (controlGroups s)(nat (groupId (units s i)) :=
              remove_from_group i 0 (controlGroups s (nat (groupId (units s i)))))
      else controlGroups s)"
  by (simp add: assign_step_def Let_def)

lemma assign_loop_units:
  "units (fold (assign_step G) [0..<m] s) =
     (\<lambda>k. if k < m \<and> active (units s k) \<and> selected (units s k)
          then (units s k)\<lparr>groupId := G\<rparr> else units s k)"
proof (induction m)
  case 0
  show ?case by simp
next
  case (Suc m)
  show ?case
    by (auto simp add: assign_step_units Suc.IH fun_eq_iff less_Suc_eq)
qed

lemma assign_loop_frame:
  "unitCount (fold (assign_step G) [0..<m] s) = unitCount s"
  "rng (fold (assign_step G) [0..<m] s) = rng s"
  by (induction m) (simp_all add: assign_step_frame)

lemma assign_loop_groupActive:
  "groupActive (controlGroups (fold (assign_step G) [0..<m] s) g) = groupActive (controlGroups s g)"
  by (induction m) (auto simp add: assign_step_groups groupActive_remove_from_group)

lemma assign_loop_members:
  assumes d: "distinct (members (controlGroups s g))"
  shows "members (controlGroups (fold (assign_step G) [0..<m] s) g) =
     filter (\<lambda>k. \<not> (k < m \<and> active (units s k) \<and> selected (units s k) \<and>
                      0 < groupId (units s k) \<and> nat (groupId (units s k)) = g))
       (members (controlGroups s g))"
proof (induction m)
  case 0
  show ?case by simp
next
  case (Suc m)
  let ?t = "fold (assign_step G) [0..<m] s"
  have um: "units ?t m = units s m" by (simp add: assign_loop_units)
  have dt: "distinct (members (controlGroups ?t g))"
    unfolding Suc.IH using d by simp
  show ?case
  proof (cases "active (units s m) \<and> selected (units s m) \<and> 0 < groupId (units s m) \<and>
                nat (groupId (units s m)) = g")
    case True
    then have "members (controlGroups (fold (assign_step G) [0..<Suc m] s) g) =
        filter (\<lambda>k. k \<noteq> m) (members (controlGroups ?t g))"
      using remove_from_group_distinct [OF dt, of m] by (auto simp add: assign_step_groups um)
    also have "\<dots> = filter (\<lambda>k. \<not> (k < Suc m \<and> active (units s k) \<and> selected (units s k) \<and>
                      0 < groupId (units s k) \<and> nat (groupId (units s k)) = g))
       (members (controlGroups s g))"
      unfolding Suc.IH using True by (auto simp add: less_Suc_eq intro!: filter_cong)
    finally show ?thesis .
  next
    case False
    then have "members (controlGroups (fold (assign_step G) [0..<Suc m] s) g) =
        members (controlGroups ?t g)"
      by (auto simp add: assign_step_groups um)
    also have "\<dots> = filter (\<lambda>k. \<not> (k < Suc m \<and> active (units s k) \<and> selected (units s k) \<and>
                      0 < groupId (units s k) \<and> nat (groupId (units s k)) = g))
       (members (controlGroups s g))"
      unfolding Suc.IH using False by (auto simp add: less_Suc_eq intro!: filter_cong)
    finally show ?thesis .
  qed
qed

lemma build_loop_members:
  "members (fold (build_step s) js g) =
     members g @ filter (\<lambda>i. active (units s i) \<and> selected (units s i)) js"
  by (induction js arbitrary: g) (simp_all add: build_step_def members_def)

lemma build_loop_groupActive:
  "groupActive (fold (build_step s) js g) = groupActive g"
  by (induction js arbitrary: g) (simp_all add: build_step_def)


lemma AssignControlGroup_units:
  "1 \<le> G \<Longrightarrow> G \<le> 9 \<Longrightarrow>
   units (AssignControlGroup G s) =
     (\<lambda>k. if assigned s k then (units s k)\<lparr>groupId := G\<rparr> else units s k)"
  by (auto simp add: AssignControlGroup_def Let_def assign_loop_units assigned_def fun_eq_iff)

lemma AssignControlGroup_unitCount:
  "unitCount (AssignControlGroup G s) = unitCount s"
  by (simp add: AssignControlGroup_def Let_def assign_loop_frame)

lemma members_emptied:
  "members (g\<lparr>groupUnitCount := 0, groupActive := b\<rparr>) = []"
  by (simp add: members_def)

lemma AssignControlGroup_new_group:
  assumes "1 \<le> G" "G \<le> 9"
  shows "members (controlGroups (AssignControlGroup G s) (nat G)) =
           filter (assigned s) [0..<unitCount s]"
    and "groupActive (controlGroups (AssignControlGroup G s) (nat G))"
proof -
  let ?s1 = "fold (assign_step G) [0..<unitCount s] s"
  have "filter (\<lambda>i. active (units ?s1 i) \<and> selected (units ?s1 i)) [0..<unitCount s] =
        filter (assigned s) [0..<unitCount s]"
    by (rule filter_cong) (auto simp add: assign_loop_units assigned_def)
  with assms show "members (controlGroups (AssignControlGroup G s) (nat G)) =
           filter (assigned s) [0..<unitCount s]"
    by (simp add: AssignControlGroup_def Let_def assign_loop_frame build_loop_members
          members_emptied)
  from assms show "groupActive (controlGroups (AssignControlGroup G s) (nat G))"
    by (simp add: AssignControlGroup_def Let_def build_loop_groupActive)
qed

lemma AssignControlGroup_other_group:
  assumes "1 \<le> G" "G \<le> 9" "g \<noteq> nat G" "distinct (members (controlGroups s g))"
  shows "members (controlGroups (AssignControlGroup G s) g) =
     filter (\<lambda>k. \<not> (assigned s k \<and> 0 < groupId (units s k) \<and> nat (groupId (units s k)) = g))
       (members (controlGroups s g))"
  using assms
  by (simp add: AssignControlGroup_def Let_def assign_loop_members assigned_def)

text \<open>
  Claim C2, as stated, fails in its last part. \<open>AssignControlGroup\<close> sets the count of
  the target group to zero and fills the list anew from the selection. A unit that was
  a member of group 1 and is not selected is no longer in the list after
  \<open>AssignControlGroup 1\<close>.
\<close>

theorem C2_counterexample_unselected_member_dropped:
  "members (controlGroups grouped 1) = [0] \<and>
   active (units grouped 0) \<and> \<not> selected (units grouped 0) \<and>
   members (controlGroups (AssignControlGroup 1 grouped) 1) = [1]"
proof -
  have "members (controlGroups (AssignControlGroup 1 grouped) (nat 1)) =
          filter (assigned grouped) [0..<unitCount grouped]"
    by (rule AssignControlGroup_new_group) simp_all
  then show ?thesis
    by (simp add: grouped_def members_def assigned_def unit_at_def blank_unit_def numeral_2_eq_2)
qed

text \<open>
  Claim C2, amended. For a group number \<open>G\<close> in \<open>1..9\<close>, after \<open>AssignControlGroup G\<close>
  every selected active unit has group id \<open>G\<close>; the membership list of \<open>G\<close> is exactly
  the selected active units in slot order (the list is rebuilt, so former members that
  are not selected are dropped from it) and the group is marked active; and from the
  list of every other group, when that list has no duplicates, exactly the selected
  active units whose group id named that group are removed, the rest keeping their order.
\<close>

theorem C2_assign_rebuilds_group:
  assumes "1 \<le> G" "G \<le> 9"
  shows "(\<forall>i. assigned s i \<longrightarrow> groupId (units (AssignControlGroup G s) i) = G) \<and>
     members (controlGroups (AssignControlGroup G s) (nat G)) =
       filter (assigned s) [0..<unitCount s] \<and>
     groupActive (controlGroups (AssignControlGroup G s) (nat G)) \<and>
     (\<forall>g. g \<noteq> nat G \<and> distinct (members (controlGroups s g)) \<longrightarrow>
        members (controlGroups (AssignControlGroup G s) g) =
          filter (\<lambda>k. \<not> (assigned s k \<and> 0 < groupId (units s k) \<and>
                           nat (groupId (units s k)) = g))
            (members (controlGroups s g)))"
  using assms
  by (simp add: AssignControlGroup_units AssignControlGroup_new_group
        AssignControlGroup_other_group)

text \<open>
  Units 0 and 2 are selected, units 0 and 1 form group 2. Assigning group 1 moves unit 0
  out of group 2, whose list closes up to unit 1, and makes units 0 and 2 group 1.
\<close>

theorem C2_assign_rebuilds_group_witness:
  "(1::int) \<le> 1 \<and> (1::int) \<le> 9 \<and> assigned regroup 0 \<and> assigned regroup 2 \<and>
   distinct (members (controlGroups regroup 2)) \<and>
   groupId (units (AssignControlGroup 1 regroup) 0) = 1 \<and>
   groupId (units (AssignControlGroup 1 regroup) 2) = 1 \<and>
   members (controlGroups (AssignControlGroup 1 regroup) 1) = [0, 2] \<and>
   members (controlGroups regroup 2) = [0, 1] \<and>
   members (controlGroups (AssignControlGroup 1 regroup) 2) = [1]"
proof -
  have a: "assigned regroup = (\<lambda>k. k = 0 \<or> k = 2)"
    by (auto simp add: assigned_def regroup_def unit_at_def blank_unit_def fun_eq_iff)
  have m: "members (controlGroups regroup 2) = [0, 1]"
    by (simp add: regroup_def members_def numeral_2_eq_2)
  have g: "groupId (units regroup 0) = 2"
    by (simp add: regroup_def)
  have n: "unitCount regroup = 3"
    by (simp add: regroup_def)
  from C2_assign_rebuilds_group [of 1 regroup]
  have "(\<forall>i. assigned regroup i \<longrightarrow> groupId (units (AssignControlGroup 1 regroup) i) = 1) \<and>
     members (controlGroups (AssignControlGroup 1 regroup) (nat 1)) =
       filter (assigned regroup) [0..<unitCount regroup] \<and>
     (2 \<noteq> nat 1 \<and> distinct (members (controlGroups regroup 2)) \<longrightarrow>
        members (controlGroups (AssignControlGroup 1 regroup) 2) =
          filter (\<lambda>k. \<not> (assigned regroup k \<and> 0 < groupId (units regroup k) \<and>
                           nat (groupId (units regroup k)) = 2))
            (members (controlGroups regroup 2)))"
    by simp
  then show ?thesis
    unfolding m n by (simp add: a g numeral_3_eq_3)
qed

subsection \<open>SelectControlGroup after AssignControlGroup\<close>

lemma select_step_fst:
  "fst (select_step g j (s, c, v)) =
     (if unitIndices g j < unitCount s \<and> active (units s (unitIndices g j))
      then s\<lparr>units := (units s)(unitIndices g j :=
                 (units s (unitIndices g j))\<lparr>selected := True\<rparr>)\<rparr>
      else s)"
  by (simp add: select_step_def Let_def)

lemma select_loop_fst:
  "fst (fold (select_step g) js (s, c, v)) =
     s\<lparr>units := (\<lambda>k. if k \<in> unitIndices g ` set js \<and> k < unitCount s \<and> active (units s k)
                     then (units s k)\<lparr>selected := True\<rparr> else units s k)\<rparr>"
proof (induction js arbitrary: s c v)
  case Nil
  show ?case by simp
next
  case (Cons j js)
  obtain s1 c1 v1 where st: "select_step g j (s, c, v) = (s1, c1, v1)"
    by (cases "select_step g j (s, c, v)")
  from st have s1: "s1 = (if unitIndices g j < unitCount s \<and> active (units s (unitIndices g j))
      then s\<lparr>units := (units s)(unitIndices g j :=
                 (units s (unitIndices g j))\<lparr>selected := True\<rparr>)\<rparr>
      else s)"
    using select_step_fst [of g j s c v] by simp
  have "fst (fold (select_step g) (j # js) (s, c, v)) = fst (fold (select_step g) js (s1, c1, v1))"
    by (simp add: st)
  also have "\<dots> = s1\<lparr>units := (\<lambda>k. if k \<in> unitIndices g ` set js \<and> k < unitCount s1 \<and> active (units s1 k)
                     then (units s1 k)\<lparr>selected := True\<rparr> else units s1 k)\<rparr>"
    by (rule Cons.IH)
  also have "\<dots> = s\<lparr>units := (\<lambda>k. if k \<in> unitIndices g ` set (j # js) \<and> k < unitCount s \<and> active (units s k)
                     then (units s k)\<lparr>selected := True\<rparr> else units s k)\<rparr>"
    unfolding s1 by (rule state.equality) (auto simp add: fun_eq_iff)
  finally show ?case .
qed


lemma SelectControlGroup_fst:
  assumes "1 \<le> G" "G \<le> 9" "groupActive (controlGroups s (nat G))"
    "groupUnitCount (controlGroups s (nat G)) \<noteq> 0"
  shows "fst (SelectControlGroup G s) =
     s\<lparr>units := (\<lambda>k. if k < unitCount s
                     then (units s k)\<lparr>selected := (k \<in> set (members (controlGroups s (nat G))) \<and>
                                                    active (units s k))\<rparr>
                     else units s k)\<rparr>"
proof -
  let ?g = "controlGroups s (nat G)"
  let ?z = "\<lparr>v3x = 0, v3y = 0, v3z = 0\<rparr> :: Vector3"
  obtain s2 c2 v2 where f:
    "fold (select_step ?g) [0..<groupUnitCount ?g] (deselect_all s, ?z, 0) = (s2, c2, v2)"
    by (cases "fold (select_step ?g) [0..<groupUnitCount ?g] (deselect_all s, ?z, 0)")
  from assms have "fst (SelectControlGroup G s) = s2"
    by (simp add: SelectControlGroup_def Let_def f)
  also have "s2 = fst (fold (select_step ?g) [0..<groupUnitCount ?g] (deselect_all s, ?z, 0))"
    by (simp add: f)
  also have "\<dots> = s\<lparr>units := (\<lambda>k. if k < unitCount s
                     then (units s k)\<lparr>selected := (k \<in> set (members ?g) \<and> active (units s k))\<rparr>
                     else units s k)\<rparr>"
    unfolding select_loop_fst
    by (rule state.equality) (auto simp add: deselect_all_eq members_def fun_eq_iff)
  finally show ?thesis .
qed

text \<open>
  Claim C6. For a group number \<open>G\<close> in \<open>1..9\<close> and a nonempty set of selected active
  units, \<open>AssignControlGroup G\<close> followed at once by \<open>SelectControlGroup G\<close> leaves
  exactly the assigned units selected: every unit slot below \<open>unitCount\<close> is selected
  if and only if it was active and selected before the assignment. No unit is
  deactivated by the two calls.
\<close>

theorem C6_assign_then_select:
  assumes "1 \<le> G" "G \<le> 9" "\<exists>i. assigned s i"
  shows "unitCount (fst (SelectControlGroup G (AssignControlGroup G s))) = unitCount s \<and>
     (\<forall>k<unitCount s.
        selected (units (fst (SelectControlGroup G (AssignControlGroup G s))) k) = assigned s k \<and>
        active (units (fst (SelectControlGroup G (AssignControlGroup G s))) k) = active (units s k))"
proof -
  let ?s1 = "AssignControlGroup G s"
  have m: "members (controlGroups ?s1 (nat G)) = filter (assigned s) [0..<unitCount s]"
    and a: "groupActive (controlGroups ?s1 (nat G))"
    using assms by (simp_all add: AssignControlGroup_new_group)
  from assms(3) obtain i where i: "assigned s i" ..
  then have "i \<in> set (members (controlGroups ?s1 (nat G)))"
    unfolding m by (simp add: assigned_def)
  then have "members (controlGroups ?s1 (nat G)) \<noteq> []" by auto
  then have n: "groupUnitCount (controlGroups ?s1 (nat G)) \<noteq> 0"
    by (auto simp add: members_def)
  show ?thesis
    unfolding SelectControlGroup_fst [OF assms(1,2) a n] m
    using assms(1,2)
    by (auto simp add: AssignControlGroup_unitCount AssignControlGroup_units assigned_def)
qed

text \<open>
  With units 0 and 2 selected out of three, assigning and then selecting group 1 ends
  with units 0 and 2 selected and unit 1 not.
\<close>

theorem C6_assign_then_select_witness:
  "(1::int) \<le> 1 \<and> (1::int) \<le> 9 \<and> (\<exists>i. assigned regroup i) \<and>
   selected (units (fst (SelectControlGroup 1 (AssignControlGroup 1 regroup))) 0) \<and>
   \<not> selected (units (fst (SelectControlGroup 1 (AssignControlGroup 1 regroup))) 1) \<and>
   selected (units (fst (SelectControlGroup 1 (AssignControlGroup 1 regroup))) 2)"
proof -
  have a: "assigned regroup = (\<lambda>k. k = 0 \<or> k = 2)"
    by (auto simp add: assigned_def regroup_def unit_at_def blank_unit_def fun_eq_iff)
  have e: "\<exists>i. assigned regroup i"
    unfolding a by blast
  have n: "unitCount regroup = 3"
    by (simp add: regroup_def)
  from C6_assign_then_select [of 1 regroup, OF _ _ e] e show ?thesis
    unfolding n a by simp
qed

section \<open>Properties of the per-tick update\<close>

lemmas unit_eval =
  UpdateUnit_def move_unit_def resolve_target_def willCollide_def near_other_unit_def
  CheckCollisionWithModel_def blocks_def avoid_def deflected_def advance_def takes_avoidance_def
  Vector3Add_def Vector3Subtract_def Vector3Scale_def Vector3Length_def Vector3Distance_def
  Vector3Normalize_def unit_at_def blank_unit_def atan2_def lone_unit_def
  UNIT_SIZE_def UNIT_SPEED_def UNIT_TURN_SPEED_def UNIT_AVOIDANCE_DISTANCE_def
  UNIT_HEIGHT_OFFSET_def UNIT_ARRIVAL_DISTANCE_def DEG2RAD_def

lemma wrap_above_id: "d \<le> pi \<Longrightarrow> wrap_above d = d"
  by (subst wrap_above.simps) simp

lemma wrap_below_id: "- pi \<le> d \<Longrightarrow> wrap_below d = d"
  by (subst wrap_below.simps) simp

lemma wrap_zero: "wrap_below (wrap_above 0) = 0"
  by (simp add: wrap_above_id wrap_below_id)



lemma GetGroundHeight_nearest:
  "(if \<exists>c\<in>set (ground_candidates rl (down_ray pos) model). hit c \<and> distance c < 10000
    then \<exists>c\<in>set (ground_candidates rl (down_ray pos) model).
           hit c \<and> distance c < 10000 \<and>
           (\<forall>c'\<in>set (ground_candidates rl (down_ray pos) model).
               hit c' \<longrightarrow> distance c \<le> distance c') \<and>
           GetGroundHeight rl pos model = v3y (point c) + UNIT_HEIGHT_OFFSET
    else GetGroundHeight rl pos model = UNIT_HEIGHT_OFFSET)"
proof -
  let ?cs = "ground_candidates rl (down_ray pos) model"
  obtain d y where f: "fold ground_tri_step ?cs (10000, 0) = (d, y)"
    by (cases "fold ground_tri_step ?cs (10000, 0)")
  have g: "GetGroundHeight rl pos model =
             (if d \<ge> 10000 then UNIT_HEIGHT_OFFSET else y + UNIT_HEIGHT_OFFSET)"
    using f by (simp add: GetGroundHeight_def ground_scan_fold ground_candidates_def)
  from ground_tri_fold_nearest [OF f] show ?thesis
    unfolding g by auto
qed


subsection \<open>The avoidance branch\<close>

text \<open>
  Claim C1, as stated, fails for a wandering unit. Unit 0 wanders, another active unit
  stands on the same spot, so the tick takes the avoidance branch; the branch overwrites
  the wander target with the point 3 units along the deflected direction.
\<close>

theorem C1_counterexample_wander_retarget:
  "active (units crowded 0) \<and> \<not> hasCommand (units crowded 0) \<and>
   takes_avoidance flat_world (one_floor 0 True) (1 / 10) 0 crowded \<and>
   targetPosition (units crowded 0) = \<lparr>v3x = 1, v3y = 1 / 5, v3z = 0\<rparr> \<and>
   targetPosition (units (UpdateUnit flat_world (one_floor 0 True) (1 / 10) 0 crowded) 0) =
     \<lparr>v3x = 3, v3y = 1 / 5, v3z = 0\<rparr>"
  by (simp add: crowded_def unit_eval flat_world_eval numeral_2_eq_2)

text \<open>
  Claim C1, amended. When the update of an active unit takes the avoidance branch, the
  stored command target is unchanged. If the unit has a command and has not arrived
  this tick, the stored wander target is unchanged as well (the deflection is a local
  detour). Otherwise the unit is retargeted: its wander target becomes its position
  plus 3 times the deflected direction, and its wander timer becomes 1.
\<close>

theorem C1_avoidance_targets:
  assumes "takes_avoidance rl model deltaTime self s"
    and "resolve_target rl deltaTime (units s self) (rng s) = (u1, actualTarget, g1)"
    and "deflected rl (Vector3Normalize (Vector3Subtract actualTarget (position u1))) g1 =
           (direction', g2)"
  shows "commandTarget (units (UpdateUnit rl model deltaTime self s) self) =
           commandTarget (units s self) \<and>
         (hasCommand (units s self) \<and>
          \<not> Vector3Distance (position (units s self)) (commandTarget (units s self))
              < UNIT_ARRIVAL_DISTANCE \<longrightarrow>
            targetPosition (units (UpdateUnit rl model deltaTime self s) self) =
              targetPosition (units s self)) \<and>
         (\<not> (hasCommand (units s self) \<and>
          \<not> Vector3Distance (position (units s self)) (commandTarget (units s self))
              < UNIT_ARRIVAL_DISTANCE) \<longrightarrow>
            targetPosition (units (UpdateUnit rl model deltaTime self s) self) =
              Vector3Add (position (units s self)) (Vector3Scale direction' 3) \<and>
            moveTimer (units (UpdateUnit rl model deltaTime self s) self) = 1)"
  using assms
  by (auto simp add: UpdateUnit_def move_unit_def takes_avoidance_def avoid_def resolve_target_def
        Let_def split: if_splits prod.splits)

text \<open>
  A commanded unit with another unit on the same spot: it is deflected, moves at half
  speed, and keeps both targets.
\<close>

theorem C1_avoidance_targets_witness:
  "takes_avoidance flat_world (one_floor 0 True) (1 / 10) 0 escorted \<and>
   hasCommand (units escorted 0) \<and>
   commandTarget (units escorted 0) = \<lparr>v3x = 1, v3y = 1 / 5, v3z = 0\<rparr> \<and>
   commandTarget (units (UpdateUnit flat_world (one_floor 0 True) (1 / 10) 0 escorted) 0) =
     \<lparr>v3x = 1, v3y = 1 / 5, v3z = 0\<rparr> \<and>
   targetPosition (units (UpdateUnit flat_world (one_floor 0 True) (1 / 10) 0 escorted) 0) =
     targetPosition (units escorted 0) \<and>
   position (units (UpdateUnit flat_world (one_floor 0 True) (1 / 10) 0 escorted) 0) =
     \<lparr>v3x = 1 / 10, v3y = 1 / 5, v3z = 0\<rparr>"
proof -
  have ta: "takes_avoidance flat_world (one_floor 0 True) (1 / 10) 0 escorted"
    by (simp add: escorted_def unit_eval flat_world_eval numeral_2_eq_2)
  have rt: "resolve_target flat_world (1 / 10) (units escorted 0) (rng escorted) =
      (units escorted 0, \<lparr>v3x = 1, v3y = 1 / 5, v3z = 0\<rparr>, 90)"
    by (simp add: escorted_def unit_eval)
  have df: "deflected flat_world
      (Vector3Normalize (Vector3Subtract \<lparr>v3x = 1, v3y = 1 / 5, v3z = 0\<rparr>
         (position (units escorted 0)))) 90 = (\<lparr>v3x = 1, v3y = 0, v3z = 0\<rparr>, 91)"
    by (simp add: escorted_def unit_eval flat_world_def)
  have far: "hasCommand (units escorted 0) \<and>
      \<not> Vector3Distance (position (units escorted 0)) (commandTarget (units escorted 0))
          < UNIT_ARRIVAL_DISTANCE"
    by (simp add: escorted_def unit_eval)
  have ct: "commandTarget (units escorted 0) = \<lparr>v3x = 1, v3y = 1 / 5, v3z = 0\<rparr>"
    by (simp add: escorted_def unit_eval)
  have pos: "position (units (UpdateUnit flat_world (one_floor 0 True) (1 / 10) 0 escorted) 0) =
     \<lparr>v3x = 1 / 10, v3y = 1 / 5, v3z = 0\<rparr>"
    by (simp add: escorted_def unit_eval flat_world_eval numeral_2_eq_2)
  from C1_avoidance_targets [OF ta rt df] ta far ct pos show ?thesis by simp
qed

subsection \<open>The ground clamp\<close>

text \<open>
  Claim C8, as stated, fails where it says that the unit rests on the surface below it
  and takes the default height only when no surface is below. The ground sample
  discards hits at distance \<open>10000\<close> or more: a unit moving at height 0 over a floor at
  height \<open>-9990\<close> has that floor below it, hit by the downward ray at distance
  \<open>10000\<close>, and is put at the default height, far above the floor.
\<close>

theorem C8_counterexample_hover_over_far_floor:
  "active (units hoverer 0) \<and>
   position (fst (move_unit flat_world (one_floor (- 9990) True) (1 / 10) 0 hoverer)) =
     \<lparr>v3x = 1 / 5, v3y = 0, v3z = 0\<rparr> \<and>
   scene_collisions flat_world (down_ray \<lparr>v3x = 1 / 5, v3y = 0, v3z = 0\<rparr>)
       (one_floor (- 9990) True) =
     [\<lparr>hit = True, distance = 10000, point = \<lparr>v3x = 1 / 5, v3y = - 9990, v3z = 0\<rparr>\<rparr>] \<and>
   position (units (UpdateUnit flat_world (one_floor (- 9990) True) (1 / 10) 0 hoverer) 0) =
     \<lparr>v3x = 1 / 5, v3y = UNIT_HEIGHT_OFFSET, v3z = 0\<rparr>"
  by (simp add: hoverer_def unit_eval flat_world_eval wrap_zero)

text \<open>
  Claim C8, amended. After \<open>UpdateUnit\<close> on an active unit, whichever branch the tick
  took, X and Z are those of the position the unit moved to, and Y is the
  \<open>GetGroundHeight\<close> sample taken at that position: cast the ray straight down from
  \<open>10\<close> above it and take the triangles of the meshes whose bounding box the ray hits;
  if one of them is hit closer than \<open>10000\<close>, Y is the height of a nearest such hit
  plus \<open>UNIT_HEIGHT_OFFSET\<close>; otherwise Y is the default height \<open>UNIT_HEIGHT_OFFSET\<close>.
\<close>

theorem C8_ground_clamp:
  assumes "active (units s self)"
  shows "v3x (position (units (UpdateUnit rl model deltaTime self s) self)) =
           v3x (position (fst (move_unit rl model deltaTime self s))) \<and>
         v3z (position (units (UpdateUnit rl model deltaTime self s) self)) =
           v3z (position (fst (move_unit rl model deltaTime self s))) \<and>
         v3y (position (units (UpdateUnit rl model deltaTime self s) self)) =
           GetGroundHeight rl (position (fst (move_unit rl model deltaTime self s))) model \<and>
         (if \<exists>c\<in>set (ground_candidates rl
                        (down_ray (position (fst (move_unit rl model deltaTime self s)))) model).
               hit c \<and> distance c < 10000
          then \<exists>c\<in>set (ground_candidates rl
                        (down_ray (position (fst (move_unit rl model deltaTime self s)))) model).
                 hit c \<and> distance c < 10000 \<and>
                 (\<forall>c'\<in>set (ground_candidates rl
                        (down_ray (position (fst (move_unit rl model deltaTime self s)))) model).
                     hit c' \<longrightarrow> distance c \<le> distance c') \<and>
                 v3y (position (units (UpdateUnit rl model deltaTime self s) self)) =
                   v3y (point c) + UNIT_HEIGHT_OFFSET
          else v3y (position (units (UpdateUnit rl model deltaTime self s) self)) =
                 UNIT_HEIGHT_OFFSET)"
proof -
  have y: "v3y (position (units (UpdateUnit rl model deltaTime self s) self)) =
           GetGroundHeight rl (position (fst (move_unit rl model deltaTime self s))) model"
    using assms by (simp add: UpdateUnit_def Let_def split: prod.splits)
  have xz: "v3x (position (units (UpdateUnit rl model deltaTime self s) self)) =
           v3x (position (fst (move_unit rl model deltaTime self s))) \<and>
         v3z (position (units (UpdateUnit rl model deltaTime self s) self)) =
           v3z (position (fst (move_unit rl model deltaTime self s)))"
    using assms by (simp add: UpdateUnit_def Let_def split: prod.splits)
  from GetGroundHeight_nearest [of rl "position (fst (move_unit rl model deltaTime self s))" model]
  show ?thesis
    unfolding y using xz by simp
qed

lemma walker_move:
  "position (fst (move_unit flat_world (one_floor 3 True) (1 / 10) 0 walker)) =
     \<lparr>v3x = 1 / 5, v3y = 7, v3z = 0\<rparr>"
  by (simp add: walker_def unit_eval flat_world_eval wrap_zero)

lemma walker_candidates:
  "ground_candidates flat_world (down_ray \<lparr>v3x = 1 / 5, v3y = 7, v3z = 0\<rparr>) (one_floor 3 True) =
     [\<lparr>hit = True, distance = 14, point = \<lparr>v3x = 1 / 5, v3y = 3, v3z = 0\<rparr>\<rparr>]"
  by (simp add: flat_world_eval)

text \<open>
  A unit in the air at height 7 above a floor at height 3 steps forward and is set on
  the floor.
\<close>

theorem C8_ground_clamp_witness:
  "active (units walker 0) \<and>
   position (units walker 0) = \<lparr>v3x = 0, v3y = 7, v3z = 0\<rparr> \<and>
   position (units (UpdateUnit flat_world (one_floor 3 True) (1 / 10) 0 walker) 0) =
     \<lparr>v3x = 1 / 5, v3y = 3 + UNIT_HEIGHT_OFFSET, v3z = 0\<rparr>"
proof -
  have a: "active (units walker 0)"
    by (simp add: walker_def unit_eval)
  have p: "position (units walker 0) = \<lparr>v3x = 0, v3y = 7, v3z = 0\<rparr>"
    by (simp add: walker_def unit_eval)
  from C8_ground_clamp [OF a, of flat_world "one_floor 3 True" "1 / 10"]
  have "v3x (position (units (UpdateUnit flat_world (one_floor 3 True) (1 / 10) 0 walker) 0)) = 1 / 5 \<and>
        v3z (position (units (UpdateUnit flat_world (one_floor 3 True) (1 / 10) 0 walker) 0)) = 0 \<and>
        v3y (position (units (UpdateUnit flat_world (one_floor 3 True) (1 / 10) 0 walker) 0)) =
          3 + UNIT_HEIGHT_OFFSET"
    unfolding walker_move walker_candidates by simp
  then have "position (units (UpdateUnit flat_world (one_floor 3 True) (1 / 10) 0 walker) 0) =
     \<lparr>v3x = 1 / 5, v3y = 3 + UNIT_HEIGHT_OFFSET, v3z = 0\<rparr>"
    by (intro Vector3.equality) simp_all
  with a p show ?thesis by simp
qed

subsection \<open>Arrival at the command target\<close>




























end
